theory Spec2Isabelle
  imports Main
begin

section \<open>Data model\<close>

text \<open>
  The tables of \<^verbatim>\<open>app/models\<close>. Every row type is a record; the two association
  tables \<^verbatim>\<open>workspace_members\<close> and \<^verbatim>\<open>project_members\<close> are lists of
  (parent id, user id) pairs. The columns \<^verbatim>\<open>created_at\<close> and \<^verbatim>\<open>updated_at\<close> are
  clock readings of the database server and are left out; \<^verbatim>\<open>due_date\<close> is an opaque
  integer time stamp.
\<close>

text \<open>
  Modelled from the spec: \<^verbatim>\<open>app/models/user.py\<close> is not among the sources. The code
  reads two attributes of a user, \<^verbatim>\<open>id\<close> and \<^verbatim>\<open>is_superuser\<close> (spec section 3:
  "User: identity with is_superuser flag").
\<close>

record user =
  u_id :: int
  u_is_superuser :: bool

record workspace =
  w_id :: int
  w_name :: string
  w_description :: "string option"
  w_owner_id :: int

record project =
  p_id :: int
  p_name :: string
  p_description :: "string option"
  p_workspace_id :: int

datatype TaskPriority = LOW | MEDIUM | HIGH | URGENT

datatype TaskStatus = TODO | IN_PROGRESS | REVIEW | DONE

record task =
  t_id :: int
  t_title :: string
  t_description :: "string option"
  t_status :: TaskStatus
  t_priority :: TaskPriority
  t_due_date :: "int option"
  t_project_id :: int
  t_assignee_id :: "int option"
  t_created_by_id :: int

text \<open>
  The database the session \<^verbatim>\<open>db\<close> talks to. The two sequences hold the last id
  the server handed out for \<^verbatim>\<open>workspaces.id\<close> and \<^verbatim>\<open>tasks.id\<close>.
\<close>

record db =
  users :: "user list"
  workspaces :: "workspace list"
  workspace_members :: "(int \<times> int) list"
  projects :: "project list"
  project_members :: "(int \<times> int) list"
  tasks :: "task list"
  workspaces_id_seq :: int
  tasks_id_seq :: int

text \<open>
  Everything a handler can raise: the \<^verbatim>\<open>HTTPException\<close>s of the routes with their
  status code and detail, Python's own \<^verbatim>\<open>AttributeError\<close> (an attribute read on
  \<^verbatim>\<open>None\<close>) and \<^verbatim>\<open>TypeError\<close>, and the errors the database driver reports at
  \<^verbatim>\<open>commit\<close> or when a statement is executed.
\<close>

datatype error =
    HTTPException int string
  | AttributeError
  | TypeError
  | IntegrityError
  | DBAPIError

section \<open>Queries\<close>

text \<open>\<^verbatim>\<open>db.query(M).filter(M.id == i).first()\<close>\<close>

definition get_user :: "db \<Rightarrow> int \<Rightarrow> user option" where
  "get_user d i = find (\<lambda>u. u_id u = i) (users d)"

definition get_workspace :: "db \<Rightarrow> int \<Rightarrow> workspace option" where
  "get_workspace d i = find (\<lambda>w. w_id w = i) (workspaces d)"

definition get_project :: "db \<Rightarrow> int \<Rightarrow> project option" where
  "get_project d i = find (\<lambda>p. p_id p = i) (projects d)"

definition get_task :: "db \<Rightarrow> int \<Rightarrow> task option" where
  "get_task d i = find (\<lambda>t. t_id t = i) (tasks d)"

text \<open>
  \<^verbatim>\<open>query.offset(skip).limit(limit).all()\<close>. The configured database is PostgreSQL
  (\<^verbatim>\<open>DATABASE_URL: PostgresDsn\<close>), which refuses a negative \<^verbatim>\<open>OFFSET\<close> or
  \<^verbatim>\<open>LIMIT\<close> and one outside its 64-bit integers; the driver raises.
\<close>

definition offset_limit :: "int \<Rightarrow> int \<Rightarrow> 'a list \<Rightarrow> error + 'a list" where
  "offset_limit skip limit rows =
     (if skip < 0 \<or> limit < 0 \<or> 9223372036854775807 < skip \<or> 9223372036854775807 < limit
      then Inl DBAPIError
      else Inr (take (nat limit) (drop (nat skip) rows)))"

text \<open>
  The relationship \<^verbatim>\<open>Workspace.members\<close> (and \<^verbatim>\<open>Project.members\<close>): the users
  joined to the parent through the association table.
\<close>

definition workspace_members_rel :: "db \<Rightarrow> int \<Rightarrow> user list" where
  "workspace_members_rel d wid =
     filter (\<lambda>u. (wid, u_id u) \<in> set (workspace_members d)) (users d)"

definition project_members_rel :: "db \<Rightarrow> int \<Rightarrow> user list" where
  "project_members_rel d pid =
     filter (\<lambda>u. (pid, u_id u) \<in> set (project_members d)) (users d)"

text \<open>
  \<^verbatim>\<open>user in parent.members\<close>, and the SQL form
  \<^verbatim>\<open>M.members.any(User.id == current_user.id)\<close>. Mapped objects have no
  \<^verbatim>\<open>__eq__\<close>; in one session two of them are the same object exactly when they are
  the same row, that is, when their primary keys agree.
\<close>

definition user_in :: "user \<Rightarrow> user list \<Rightarrow> bool" where
  "user_in u us = (u_id u \<in> set (map u_id us))"

text \<open>Python's truth value of an optional integer: \<^verbatim>\<open>None\<close> and \<^verbatim>\<open>0\<close> are false.\<close>

definition truthy :: "int option \<Rightarrow> bool" where
  "truthy x = (case x of None \<Rightarrow> False | Some n \<Rightarrow> n \<noteq> 0)"

section \<open>Pagination helper\<close>

text \<open>\<^verbatim>\<open>app/utils/helpers.py\<close>, \<^verbatim>\<open>paginate_query_params\<close>.\<close>

definition paginate_query_params :: "int \<Rightarrow> int \<Rightarrow> int \<times> int" where
  "paginate_query_params skip limit =
     (let skip' = max 0 skip;
          limit' = max 1 (min limit 1000)
      in (skip', limit'))"

section \<open>Workspace routes\<close>


definition can_manage_workspace :: "user \<Rightarrow> workspace \<Rightarrow> bool" where
  "can_manage_workspace current_user w =
     (u_is_superuser current_user \<or> w_owner_id w = u_id current_user)"

text \<open>\<^verbatim>\<open>routes/workspaces.py\<close>, \<^verbatim>\<open>read_workspaces\<close>.\<close>

definition read_workspaces :: "db \<Rightarrow> int \<Rightarrow> int \<Rightarrow> user \<Rightarrow> error + workspace list" where
  "read_workspaces d skip limit current_user =
     (if u_is_superuser current_user
      then offset_limit skip limit (workspaces d)
      else offset_limit skip limit
             (filter (\<lambda>w. w_owner_id w = u_id current_user \<or>
                           user_in current_user (workspace_members_rel d (w_id w)))
                (workspaces d)))"


text \<open>
  A server-assigned primary key: the next value of the table's sequence. A sequence is
  not rolled back, so it stays advanced when the insert fails.
\<close>

definition insert_workspace :: "db \<Rightarrow> workspace \<Rightarrow> (error + workspace) \<times> db" where
  "insert_workspace d w =
     (let new_id = workspaces_id_seq d + 1;
          d1 = d\<lparr>workspaces_id_seq := new_id\<rparr>;
          w' = w\<lparr>w_id := new_id\<rparr>
      in if get_workspace d new_id \<noteq> None \<or> get_user d (w_owner_id w) = None
         then (Inl IntegrityError, d1)
         else (Inr w', d1\<lparr>workspaces := workspaces d1 @ [w']\<rparr>))"

record WorkspaceCreate =
  wc_name :: string
  wc_description :: "string option"

text \<open>
  \<^verbatim>\<open>routes/workspaces.py\<close>, \<^verbatim>\<open>create_workspace\<close>: the row is built from the
  payload and the caller's id, added and committed. The id the record carries
  before the insert is a placeholder for Python's \<^verbatim>\<open>None\<close>.
\<close>

definition create_workspace :: "db \<Rightarrow> WorkspaceCreate \<Rightarrow> user \<Rightarrow> (error + workspace) \<times> db" where
  "create_workspace d workspace_in current_user =
     insert_workspace d
       \<lparr>w_id = 0, w_name = wc_name workspace_in, w_description = wc_description workspace_in,
        w_owner_id = u_id current_user\<rparr>"

text \<open>\<^verbatim>\<open>routes/workspaces.py\<close>, \<^verbatim>\<open>add_workspace_member\<close>.\<close>

definition add_workspace_member :: "db \<Rightarrow> int \<Rightarrow> int \<Rightarrow> user \<Rightarrow> (error + workspace) \<times> db" where
  "add_workspace_member d workspace_id user_id current_user =
     (case get_workspace d workspace_id of
        None \<Rightarrow> (Inl (HTTPException 404 ''Workspace not found''), d)
      | Some w \<Rightarrow>
          if \<not> can_manage_workspace current_user w
          then (Inl (HTTPException 403 ''Not enough permissions''), d)
          else (case get_user d user_id of
                  None \<Rightarrow> (Inl (HTTPException 404 ''User not found''), d)
                | Some u \<Rightarrow>
                    if user_in u (workspace_members_rel d (w_id w))
                    then (Inl (HTTPException 400 ''User already in workspace''), d)
                    else (Inr w, d\<lparr>workspace_members :=
                                      workspace_members d @ [(w_id w, u_id u)]\<rparr>)))"

section \<open>Workspace service\<close>

text \<open>\<^verbatim>\<open>services/workspace_service.py\<close>.\<close>

definition WorkspaceService_get_workspaces_by_user ::
    "db \<Rightarrow> int \<Rightarrow> int \<Rightarrow> int \<Rightarrow> error + workspace list" where
  "WorkspaceService_get_workspaces_by_user d user_id skip limit =
     offset_limit skip limit
       (remdups [w. w \<leftarrow> workspaces d, m \<leftarrow> workspace_members d, w_id w = fst m,
                    w_owner_id w = user_id \<or> snd m = user_id])"

definition WorkspaceService_get_all_workspaces :: "db \<Rightarrow> int \<Rightarrow> int \<Rightarrow> error + workspace list" where
  "WorkspaceService_get_all_workspaces d skip limit = offset_limit skip limit (workspaces d)"

definition WorkspaceService_add_member :: "db \<Rightarrow> int \<Rightarrow> int \<Rightarrow> bool \<times> db" where
  "WorkspaceService_add_member d workspace_id user_id =
     (case get_workspace d workspace_id of
        None \<Rightarrow> (False, d)
      | Some w \<Rightarrow>
          (case get_user d user_id of
             None \<Rightarrow> (False, d)
           | Some u \<Rightarrow>
               if (workspace_id, user_id) \<in> set (workspace_members d)
               then (True, d)
               else (True, d\<lparr>workspace_members :=
                                 workspace_members d @ [(workspace_id, user_id)]\<rparr>)))"

definition WorkspaceService_create_workspace ::
    "db \<Rightarrow> WorkspaceCreate \<Rightarrow> int \<Rightarrow> (error + workspace) \<times> db" where
  "WorkspaceService_create_workspace d workspace owner_id =
     (case insert_workspace d
             \<lparr>w_id = 0, w_name = wc_name workspace, w_description = wc_description workspace,
              w_owner_id = owner_id\<rparr> of
        (Inl e, d1) \<Rightarrow> (Inl e, d1)
      | (Inr db_workspace, d1) \<Rightarrow>
          (Inr db_workspace, snd (WorkspaceService_add_member d1 (w_id db_workspace) owner_id)))"

definition WorkspaceService_is_member :: "db \<Rightarrow> int \<Rightarrow> int \<Rightarrow> bool" where
  "WorkspaceService_is_member d workspace_id user_id =
     ((workspace_id, user_id) \<in> set (workspace_members d))"

text \<open>
  \<^verbatim>\<open>is_owner\<close> returns \<^verbatim>\<open>workspace and workspace.owner_id == user_id\<close>, which
  is \<^verbatim>\<open>None\<close> for a missing workspace; every caller uses it as a truth value.
\<close>

definition WorkspaceService_is_owner :: "db \<Rightarrow> int \<Rightarrow> int \<Rightarrow> bool" where
  "WorkspaceService_is_owner d workspace_id user_id =
     (case get_workspace d workspace_id of
        None \<Rightarrow> False
      | Some w \<Rightarrow> w_owner_id w = user_id)"

definition WorkspaceService_has_access :: "db \<Rightarrow> int \<Rightarrow> int \<Rightarrow> bool" where
  "WorkspaceService_has_access d workspace_id user_id =
     (WorkspaceService_is_owner d workspace_id user_id \<or>
      WorkspaceService_is_member d workspace_id user_id)"

section \<open>Project routes and service\<close>

text \<open>
  \<^verbatim>\<open>can_read_project\<close> is the check of \<^verbatim>\<open>read_project\<close> and of the task route
  \<^verbatim>\<open>create_task\<close>.
\<close>

definition can_read_project :: "db \<Rightarrow> user \<Rightarrow> project \<Rightarrow> workspace \<Rightarrow> bool" where
  "can_read_project d current_user p w =
     (u_is_superuser current_user \<or> w_owner_id w = u_id current_user \<or>
      user_in current_user (workspace_members_rel d (w_id w)) \<or>
      user_in current_user (project_members_rel d (p_id p)))"

text \<open>
  \<^verbatim>\<open>routes/projects.py\<close>, \<^verbatim>\<open>add_project_member\<close>. A project whose workspace row
  is missing makes \<^verbatim>\<open>workspace.owner_id\<close> an attribute read on \<^verbatim>\<open>None\<close>.
\<close>

definition add_project_member :: "db \<Rightarrow> int \<Rightarrow> int \<Rightarrow> user \<Rightarrow> (error + project) \<times> db" where
  "add_project_member d project_id user_id current_user =
     (case get_project d project_id of
        None \<Rightarrow> (Inl (HTTPException 404 ''Project not found''), d)
      | Some p \<Rightarrow>
          (case get_workspace d (p_workspace_id p) of
             None \<Rightarrow> (Inl AttributeError, d)
           | Some w \<Rightarrow>
               if \<not> can_manage_workspace current_user w
               then (Inl (HTTPException 403 ''Not enough permissions''), d)
               else (case get_user d user_id of
                       None \<Rightarrow> (Inl (HTTPException 404 ''User not found''), d)
                     | Some u \<Rightarrow>
                         if user_in u (project_members_rel d (p_id p))
                         then (Inl (HTTPException 400 ''User already in project''), d)
                         else (Inr p, d\<lparr>project_members :=
                                           project_members d @ [(p_id p, u_id u)]\<rparr>))))"

text \<open>
  \<^verbatim>\<open>routes/projects.py\<close>, \<^verbatim>\<open>read_projects\<close>. A non-superuser's query is joined
  to the project's workspace and filtered by the access condition before the
  workspace filter is applied.
\<close>

definition read_projects :: "db \<Rightarrow> int \<Rightarrow> int \<Rightarrow> int option \<Rightarrow> user \<Rightarrow> error + project list" where
  "read_projects d skip limit workspace_id current_user =
     (if u_is_superuser current_user
      then (let q0 = projects d;
                q1 = (if truthy workspace_id
                      then filter (\<lambda>p. Some (p_workspace_id p) = workspace_id) q0 else q0)
            in offset_limit skip limit q1)
      else (let q0 = [p. p \<leftarrow> projects d, w \<leftarrow> workspaces d, w_id w = p_workspace_id p,
                         user_in current_user (project_members_rel d (p_id p)) \<or>
                         w_owner_id w = u_id current_user \<or>
                         user_in current_user (workspace_members_rel d (w_id w))];
                q1 = (if truthy workspace_id
                      then filter (\<lambda>p. Some (p_workspace_id p) = workspace_id) q0 else q0)
            in offset_limit skip limit q1))"

text \<open>\<^verbatim>\<open>services/project_service.py\<close>.\<close>

definition ProjectService_get_projects_by_workspace ::
    "db \<Rightarrow> int \<Rightarrow> int \<Rightarrow> int \<Rightarrow> error + project list" where
  "ProjectService_get_projects_by_workspace d workspace_id skip limit =
     offset_limit skip limit (filter (\<lambda>p. p_workspace_id p = workspace_id) (projects d))"

definition ProjectService_get_all_projects :: "db \<Rightarrow> int \<Rightarrow> int \<Rightarrow> error + project list" where
  "ProjectService_get_all_projects d skip limit = offset_limit skip limit (projects d)"

definition ProjectService_get_projects_by_user ::
    "db \<Rightarrow> int \<Rightarrow> int \<Rightarrow> int \<Rightarrow> error + project list" where
  "ProjectService_get_projects_by_user d user_id skip limit =
     offset_limit skip limit
       [p. p \<leftarrow> projects d, m \<leftarrow> project_members d, p_id p = fst m, snd m = user_id]"

definition ProjectService_is_member :: "db \<Rightarrow> int \<Rightarrow> int \<Rightarrow> bool" where
  "ProjectService_is_member d project_id user_id =
     ((project_id, user_id) \<in> set (project_members d))"

definition ProjectService_has_access :: "db \<Rightarrow> int \<Rightarrow> int \<Rightarrow> bool" where
  "ProjectService_has_access d project_id user_id =
     (case get_project d project_id of
        None \<Rightarrow> False
      | Some p \<Rightarrow>
          ProjectService_is_member d project_id user_id \<or>
          WorkspaceService_has_access d (p_workspace_id p) user_id)"

definition ProjectService_add_member :: "db \<Rightarrow> int \<Rightarrow> int \<Rightarrow> bool \<times> db" where
  "ProjectService_add_member d project_id user_id =
     (case get_project d project_id of
        None \<Rightarrow> (False, d)
      | Some p \<Rightarrow>
          (case get_user d user_id of
             None \<Rightarrow> (False, d)
           | Some u \<Rightarrow>
               if \<not> WorkspaceService_has_access d (p_workspace_id p) user_id
               then (False, d)
               else if (project_id, user_id) \<in> set (project_members d)
               then (True, d)
               else (True, d\<lparr>project_members :=
                                 project_members d @ [(project_id, user_id)]\<rparr>)))"

section \<open>Task routes\<close>

text \<open>
  The request bodies of \<^verbatim>\<open>schemas/task.py\<close>. In \<^verbatim>\<open>TaskUpdate\<close> every field
  is optional and the handlers ask which fields the caller sent
  (\<^verbatim>\<open>exclude_unset=True\<close>): the outer \<open>option\<close> is \<open>None\<close> for a field that was
  not sent, the inner one is the value sent, \<^verbatim>\<open>null\<close> included.
\<close>

record TaskCreate =
  tc_title :: string
  tc_description :: "string option"
  tc_status :: "TaskStatus option"
  tc_priority :: "TaskPriority option"
  tc_due_date :: "int option"
  tc_project_id :: int
  tc_assignee_id :: "int option"

record TaskUpdate =
  tu_title :: "string option option"
  tu_description :: "string option option"
  tu_status :: "TaskStatus option option"
  tu_priority :: "TaskPriority option option"
  tu_due_date :: "int option option"
  tu_project_id :: "int option option"
  tu_assignee_id :: "int option option"

text \<open>
  The access checks of \<^verbatim>\<open>routes/tasks.py\<close>: \<^verbatim>\<open>can_read_task\<close> is the check of
  \<^verbatim>\<open>read_task\<close>, \<^verbatim>\<open>can_manage_task\<close> the check of \<^verbatim>\<open>update_task\<close> and
  \<^verbatim>\<open>can_delete_task\<close> the check of \<^verbatim>\<open>delete_task\<close>.
\<close>

definition can_read_task :: "db \<Rightarrow> user \<Rightarrow> task \<Rightarrow> project \<Rightarrow> workspace \<Rightarrow> bool" where
  "can_read_task d current_user t p w =
     (u_is_superuser current_user \<or> w_owner_id w = u_id current_user \<or>
      user_in current_user (workspace_members_rel d (w_id w)) \<or>
      user_in current_user (project_members_rel d (p_id p)) \<or>
      t_assignee_id t = Some (u_id current_user) \<or> t_created_by_id t = u_id current_user)"

definition can_manage_task :: "user \<Rightarrow> task \<Rightarrow> workspace \<Rightarrow> bool" where
  "can_manage_task current_user t w =
     (u_is_superuser current_user \<or> w_owner_id w = u_id current_user \<or>
      t_created_by_id t = u_id current_user \<or> t_assignee_id t = Some (u_id current_user))"

definition can_delete_task :: "user \<Rightarrow> task \<Rightarrow> workspace \<Rightarrow> bool" where
  "can_delete_task current_user t w =
     (u_is_superuser current_user \<or> w_owner_id w = u_id current_user \<or>
      t_created_by_id t = u_id current_user)"

text \<open>
  The assignee check of \<^verbatim>\<open>create_task\<close> and \<^verbatim>\<open>update_task\<close>; it raises when
  \<^verbatim>\<open>assignee not in project.members and assignee != workspace.owner and assignee
  not in workspace.members\<close>. \<^verbatim>\<open>workspace.owner\<close> is the user row the owner id
  points to.
\<close>

definition assignee_allowed :: "db \<Rightarrow> user \<Rightarrow> project \<Rightarrow> workspace \<Rightarrow> bool" where
  "assignee_allowed d assignee p w =
     (user_in assignee (project_members_rel d (p_id p)) \<or>
      get_user d (w_owner_id w) = Some assignee \<or>
      user_in assignee (workspace_members_rel d (w_id w)))"

definition check_assignee :: "db \<Rightarrow> int \<Rightarrow> project \<Rightarrow> workspace \<Rightarrow> error option" where
  "check_assignee d assignee_id p w =
     (case get_user d assignee_id of
        None \<Rightarrow> Some (HTTPException 404 ''Assignee not found'')
      | Some assignee \<Rightarrow>
          if \<not> assignee_allowed d assignee p w
          then Some (HTTPException 400 ''Assignee must be a member of the project or workspace'')
          else None)"

text \<open>
  The insert of a task at \<^verbatim>\<open>commit\<close>: the primary key is unique, and the project,
  the assignee (when there is one) and the creator are foreign keys.
\<close>

definition insert_task :: "db \<Rightarrow> task \<Rightarrow> (error + task) \<times> db" where
  "insert_task d t =
     (let new_id = tasks_id_seq d + 1;
          d1 = d\<lparr>tasks_id_seq := new_id\<rparr>;
          t' = t\<lparr>t_id := new_id\<rparr>
      in if get_task d new_id \<noteq> None \<or> get_project d (t_project_id t) = None \<or>
            (case t_assignee_id t of None \<Rightarrow> False | Some a \<Rightarrow> get_user d a = None) \<or>
            get_user d (t_created_by_id t) = None
         then (Inl IntegrityError, d1)
         else (Inr t', d1\<lparr>tasks := tasks d1 @ [t']\<rparr>))"

text \<open>
  \<^verbatim>\<open>create_task\<close>. The row takes every field of \<^verbatim>\<open>task_in\<close> and
  \<^verbatim>\<open>created_by_id=current_user.id\<close>;
  a status or priority the caller left out reaches the insert as \<^verbatim>\<open>None\<close> and
  takes the column's default.
\<close>

definition create_task :: "db \<Rightarrow> TaskCreate \<Rightarrow> user \<Rightarrow> (error + task) \<times> db" where
  "create_task d task_in current_user =
     (case get_project d (tc_project_id task_in) of
        None \<Rightarrow> (Inl (HTTPException 404 ''Project not found''), d)
      | Some p \<Rightarrow>
          (case get_workspace d (p_workspace_id p) of
             None \<Rightarrow> (Inl AttributeError, d)
           | Some w \<Rightarrow>
               if \<not> can_read_project d current_user p w
               then (Inl (HTTPException 403 ''Not enough permissions''), d)
               else (case (if truthy (tc_assignee_id task_in)
                           then check_assignee d (the (tc_assignee_id task_in)) p w
                           else None) of
                       Some e \<Rightarrow> (Inl e, d)
                     | None \<Rightarrow>
                         insert_task d
                           \<lparr>t_id = 0, t_title = tc_title task_in,
                            t_description = tc_description task_in,
                            t_status = (case tc_status task_in of None \<Rightarrow> TODO | Some s \<Rightarrow> s),
                            t_priority =
                              (case tc_priority task_in of None \<Rightarrow> MEDIUM | Some q \<Rightarrow> q),
                            t_due_date = tc_due_date task_in,
                            t_project_id = tc_project_id task_in,
                            t_assignee_id = tc_assignee_id task_in,
                            t_created_by_id = u_id current_user\<rparr>)))"

text \<open>\<^verbatim>\<open>read_task\<close>.\<close>

definition read_task :: "db \<Rightarrow> int \<Rightarrow> user \<Rightarrow> error + task" where
  "read_task d task_id current_user =
     (case get_task d task_id of
        None \<Rightarrow> Inl (HTTPException 404 ''Task not found'')
      | Some t \<Rightarrow>
          (case get_project d (t_project_id t) of
             None \<Rightarrow> Inl AttributeError
           | Some p \<Rightarrow>
               (case get_workspace d (p_workspace_id p) of
                  None \<Rightarrow> Inl AttributeError
                | Some w \<Rightarrow>
                    if \<not> can_read_task d current_user t p w
                    then Inl (HTTPException 403 ''Not enough permissions'')
                    else Inr t)))"

text \<open>
  The loop \<^verbatim>\<open>for field, value in update_data.items(): setattr(task, field, value)\<close>
  over the fields that were sent, and the \<^verbatim>\<open>commit\<close> after it. The columns
  \<^verbatim>\<open>title\<close>, \<^verbatim>\<open>status\<close>, \<^verbatim>\<open>priority\<close> and \<^verbatim>\<open>project_id\<close> are not nullable:
  a \<^verbatim>\<open>null\<close> sent for one of them fails at the commit, as does a changed foreign
  key that points to no row.
\<close>

definition sets_null :: "TaskUpdate \<Rightarrow> bool" where
  "sets_null u =
     (tu_title u = Some None \<or> tu_status u = Some None \<or> tu_priority u = Some None \<or>
      tu_project_id u = Some None)"

definition setattrs :: "TaskUpdate \<Rightarrow> task \<Rightarrow> task" where
  "setattrs u t =
     t\<lparr>t_title := (case tu_title u of Some (Some v) \<Rightarrow> v | _ \<Rightarrow> t_title t),
       t_description := (case tu_description u of Some v \<Rightarrow> v | None \<Rightarrow> t_description t),
       t_status := (case tu_status u of Some (Some v) \<Rightarrow> v | _ \<Rightarrow> t_status t),
       t_priority := (case tu_priority u of Some (Some v) \<Rightarrow> v | _ \<Rightarrow> t_priority t),
       t_due_date := (case tu_due_date u of Some v \<Rightarrow> v | None \<Rightarrow> t_due_date t),
       t_project_id := (case tu_project_id u of Some (Some v) \<Rightarrow> v | _ \<Rightarrow> t_project_id t),
       t_assignee_id := (case tu_assignee_id u of Some v \<Rightarrow> v | None \<Rightarrow> t_assignee_id t)\<rparr>"

definition commit_task_update :: "db \<Rightarrow> task \<Rightarrow> TaskUpdate \<Rightarrow> (error + task) \<times> db" where
  "commit_task_update d t u =
     (let t' = setattrs u t
      in if sets_null u then (Inl IntegrityError, d)
         else if t_project_id t' \<noteq> t_project_id t \<and> get_project d (t_project_id t') = None
         then (Inl IntegrityError, d)
         else if t_assignee_id t' \<noteq> t_assignee_id t \<and>
                 (case t_assignee_id t' of None \<Rightarrow> False | Some a \<Rightarrow> get_user d a = None)
         then (Inl IntegrityError, d)
         else (Inr t', d\<lparr>tasks := map (\<lambda>x. if t_id x = t_id t then t' else x) (tasks d)\<rparr>))"

text \<open>
  \<^verbatim>\<open>update_task\<close>. \<^verbatim>\<open>task_in.assignee_id\<close> reads \<^verbatim>\<open>None\<close> both for a field
  that was not sent and for a \<^verbatim>\<open>null\<close>.
\<close>

definition update_task :: "db \<Rightarrow> int \<Rightarrow> TaskUpdate \<Rightarrow> user \<Rightarrow> (error + task) \<times> db" where
  "update_task d task_id task_in current_user =
     (case get_task d task_id of
        None \<Rightarrow> (Inl (HTTPException 404 ''Task not found''), d)
      | Some t \<Rightarrow>
          (case get_project d (t_project_id t) of
             None \<Rightarrow> (Inl AttributeError, d)
           | Some p \<Rightarrow>
               (case get_workspace d (p_workspace_id p) of
                  None \<Rightarrow> (Inl AttributeError, d)
                | Some w \<Rightarrow>
                    if \<not> can_manage_task current_user t w
                    then (Inl (HTTPException 403 ''Not enough permissions''), d)
                    else (let a = (case tu_assignee_id task_in of None \<Rightarrow> None | Some v \<Rightarrow> v)
                          in case (if truthy a \<and> a \<noteq> t_assignee_id t
                                   then check_assignee d (the a) p w
                                   else None) of
                               Some e \<Rightarrow> (Inl e, d)
                             | None \<Rightarrow> commit_task_update d t task_in))))"

text \<open>\<^verbatim>\<open>delete_task\<close>.\<close>

definition delete_task :: "db \<Rightarrow> int \<Rightarrow> user \<Rightarrow> (error + task) \<times> db" where
  "delete_task d task_id current_user =
     (case get_task d task_id of
        None \<Rightarrow> (Inl (HTTPException 404 ''Task not found''), d)
      | Some t \<Rightarrow>
          (case get_project d (t_project_id t) of
             None \<Rightarrow> (Inl AttributeError, d)
           | Some p \<Rightarrow>
               (case get_workspace d (p_workspace_id p) of
                  None \<Rightarrow> (Inl AttributeError, d)
                | Some w \<Rightarrow>
                    if \<not> can_delete_task current_user t w
                    then (Inl (HTTPException 403 ''Not enough permissions''), d)
                    else (Inr t, d\<lparr>tasks := filter (\<lambda>x. t_id x \<noteq> t_id t) (tasks d)\<rparr>))))"

text \<open>
  \<^verbatim>\<open>read_tasks\<close>. The three filters apply when their parameter is true in Python's
  sense; a non-superuser's query is joined to the task's project and that project's
  workspace and filtered by the access condition.
\<close>

definition read_tasks ::
    "db \<Rightarrow> int \<Rightarrow> int \<Rightarrow> int option \<Rightarrow> TaskStatus option \<Rightarrow> int option \<Rightarrow> user
       \<Rightarrow> error + task list" where
  "read_tasks d skip limit project_id status assignee_id current_user =
     (let q0 = tasks d;
          q1 = (if truthy project_id
                then filter (\<lambda>t. Some (t_project_id t) = project_id) q0 else q0);
          q2 = (if status \<noteq> None then filter (\<lambda>t. Some (t_status t) = status) q1 else q1);
          q3 = (if truthy assignee_id
                then filter (\<lambda>t. t_assignee_id t = assignee_id) q2 else q2);
          q4 = (if \<not> u_is_superuser current_user
                then [t. t \<leftarrow> q3, p \<leftarrow> projects d, p_id p = t_project_id t,
                         w \<leftarrow> workspaces d, w_id w = p_workspace_id p,
                         t_assignee_id t = Some (u_id current_user) \<or>
                         t_created_by_id t = u_id current_user \<or>
                         user_in current_user (project_members_rel d (p_id p)) \<or>
                         w_owner_id w = u_id current_user \<or>
                         user_in current_user (workspace_members_rel d (w_id w))]
                else q3)
      in offset_limit skip limit q4)"

section \<open>Task service\<close>

text \<open>\<^verbatim>\<open>services/task_service.py\<close>.\<close>

definition TaskService_get_tasks_by_project ::
    "db \<Rightarrow> int \<Rightarrow> TaskStatus option \<Rightarrow> int option \<Rightarrow> int \<Rightarrow> int \<Rightarrow> error + task list" where
  "TaskService_get_tasks_by_project d project_id status assignee_id skip limit =
     (let q0 = filter (\<lambda>t. t_project_id t = project_id) (tasks d);
          q1 = (if status \<noteq> None then filter (\<lambda>t. Some (t_status t) = status) q0 else q0);
          q2 = (if truthy assignee_id
                then filter (\<lambda>t. t_assignee_id t = assignee_id) q1 else q1)
      in offset_limit skip limit q2)"

definition TaskService_get_tasks_by_assignee ::
    "db \<Rightarrow> int \<Rightarrow> TaskStatus option \<Rightarrow> int \<Rightarrow> int \<Rightarrow> error + task list" where
  "TaskService_get_tasks_by_assignee d assignee_id status skip limit =
     (let q0 = filter (\<lambda>t. t_assignee_id t = Some assignee_id) (tasks d);
          q1 = (if status \<noteq> None then filter (\<lambda>t. Some (t_status t) = status) q0 else q0)
      in offset_limit skip limit q1)"

definition TaskService_get_all_tasks ::
    "db \<Rightarrow> TaskStatus option \<Rightarrow> int \<Rightarrow> int \<Rightarrow> error + task list" where
  "TaskService_get_all_tasks d status skip limit =
     (let q0 = tasks d;
          q1 = (if status \<noteq> None then filter (\<lambda>t. Some (t_status t) = status) q0 else q0)
      in offset_limit skip limit q1)"

definition TaskService_get_tasks_by_user_access ::
    "db \<Rightarrow> int \<Rightarrow> TaskStatus option \<Rightarrow> int \<Rightarrow> int \<Rightarrow> error + task list" where
  "TaskService_get_tasks_by_user_access d user_id status skip limit =
     (case ProjectService_get_projects_by_user d user_id 0 100 of
        Inl e \<Rightarrow> Inl e
      | Inr user_projects \<Rightarrow>
          (let project_ids = map p_id user_projects
           in if project_ids = [] then Inr []
              else (let q0 = filter (\<lambda>t. t_project_id t \<in> set project_ids) (tasks d);
                        q1 = (if status \<noteq> None
                              then filter (\<lambda>t. Some (t_status t) = status) q0 else q0)
                    in offset_limit skip limit q1)))"

text \<open>
  The attributes of the mapped class \<^verbatim>\<open>Task\<close> (\<^verbatim>\<open>models/task.py\<close>): its columns
  and relationships. The constructor a declarative base gives a mapped class takes
  keywords that name an attribute of the class and raises \<^verbatim>\<open>TypeError\<close> for any
  other.
\<close>

definition Task_attributes :: "string list" where
  "Task_attributes =
     [''id'', ''title'', ''description'', ''status'', ''priority'', ''due_date'',
      ''project_id'', ''assignee_id'', ''created_by_id'', ''created_at'', ''updated_at'',
      ''project'', ''assignee'', ''created_by'']"

text \<open>
  \<^verbatim>\<open>TaskService.create_task\<close>. Its constructor call passes the creator under the
  keyword \<^verbatim>\<open>creator_id\<close>. Were the keyword accepted, the row would still carry no
  \<^verbatim>\<open>created_by_id\<close>, and the commit would fail on the column, which is not
  nullable.
\<close>

definition TaskService_create_task ::
    "db \<Rightarrow> TaskCreate \<Rightarrow> int \<Rightarrow> int \<Rightarrow> (error + task option) \<times> db" where
  "TaskService_create_task d task project_id creator_id =
     (if \<not> ProjectService_has_access d project_id creator_id then (Inr None, d)
      else if truthy (tc_assignee_id task) \<and> get_user d (the (tc_assignee_id task)) = None
      then (Inr None, d)
      else if truthy (tc_assignee_id task) \<and>
              \<not> ProjectService_has_access d project_id (the (tc_assignee_id task))
      then (Inr None, d)
      else if \<not> list_all (\<lambda>k. k \<in> set Task_attributes)
                   [''title'', ''description'', ''status'', ''priority'', ''due_date'',
                    ''project_id'', ''assignee_id'', ''creator_id'']
      then (Inl TypeError, d)
      else (Inl IntegrityError, d\<lparr>tasks_id_seq := tasks_id_seq d + 1\<rparr>))"

text \<open>\<^verbatim>\<open>TaskService.update_task\<close> and \<^verbatim>\<open>TaskService.delete_task\<close>.\<close>

definition TaskService_update_task ::
    "db \<Rightarrow> int \<Rightarrow> TaskUpdate \<Rightarrow> int \<Rightarrow> (error + task option) \<times> db" where
  "TaskService_update_task d task_id task_update user_id =
     (case get_task d task_id of
        None \<Rightarrow> (Inr None, d)
      | Some db_task \<Rightarrow>
          if \<not> ProjectService_has_access d (t_project_id db_task) user_id then (Inr None, d)
          else (case tu_assignee_id task_update of
                  Some (Some a) \<Rightarrow>
                    if a \<noteq> 0 \<and> get_user d a = None then (Inr None, d)
                    else if a \<noteq> 0 \<and> \<not> ProjectService_has_access d (t_project_id db_task) a
                    then (Inr None, d)
                    else (case commit_task_update d db_task task_update of
                            (Inl e, d1) \<Rightarrow> (Inl e, d1)
                          | (Inr t', d1) \<Rightarrow> (Inr (Some t'), d1))
                | _ \<Rightarrow>
                    (case commit_task_update d db_task task_update of
                       (Inl e, d1) \<Rightarrow> (Inl e, d1)
                     | (Inr t', d1) \<Rightarrow> (Inr (Some t'), d1))))"

definition TaskService_delete_task :: "db \<Rightarrow> int \<Rightarrow> int \<Rightarrow> bool \<times> db" where
  "TaskService_delete_task d task_id user_id =
     (case get_task d task_id of
        None \<Rightarrow> (False, d)
      | Some db_task \<Rightarrow>
          if \<not> ProjectService_has_access d (t_project_id db_task) user_id then (False, d)
          else (True, d\<lparr>tasks := filter (\<lambda>x. t_id x \<noteq> t_id db_task) (tasks d)\<rparr>))"

text \<open>The update payload in which the caller sent the status and nothing else.\<close>

definition status_only :: "TaskStatus option \<Rightarrow> TaskUpdate" where
  "status_only s =
     \<lparr>tu_title = None, tu_description = None, tu_status = Some s, tu_priority = None,
      tu_due_date = None, tu_project_id = None, tu_assignee_id = None\<rparr>"

section \<open>Example data\<close>

text \<open>
  A small database for the concrete evaluations below. Alice (1) owns workspaces 1
  and 2 and is the only member of workspace 1; workspace 2 has no membership row.
  Project 1 lies in workspace 1; its members are Alice and Dan (4), who has no access
  to the workspace. Task 1 was created by Alice and is assigned to Bob (2), who is in
  no member list. Root (3) is a superuser and in no member list.
\<close>

definition alice :: user where "alice = \<lparr>u_id = 1, u_is_superuser = False\<rparr>"
definition bob :: user where "bob = \<lparr>u_id = 2, u_is_superuser = False\<rparr>"
definition root :: user where "root = \<lparr>u_id = 3, u_is_superuser = True\<rparr>"
definition dan :: user where "dan = \<lparr>u_id = 4, u_is_superuser = False\<rparr>"

definition ws1 :: workspace where
  "ws1 = \<lparr>w_id = 1, w_name = ''w1'', w_description = None, w_owner_id = 1\<rparr>"

definition ws2 :: workspace where
  "ws2 = \<lparr>w_id = 2, w_name = ''w2'', w_description = None, w_owner_id = 1\<rparr>"

definition proj1 :: project where
  "proj1 = \<lparr>p_id = 1, p_name = ''p1'', p_description = None, p_workspace_id = 1\<rparr>"

definition task1 :: task where
  "task1 = \<lparr>t_id = 1, t_title = ''t1'', t_description = None, t_status = TODO,
            t_priority = HIGH, t_due_date = None, t_project_id = 1,
            t_assignee_id = Some 2, t_created_by_id = 1\<rparr>"

definition db0 :: db where
  "db0 = \<lparr>users = [alice, bob, root, dan], workspaces = [ws1, ws2],
          workspace_members = [(1, 1)], projects = [proj1],
          project_members = [(1, 1), (1, 4)], tasks = [task1],
          workspaces_id_seq = 2, tasks_id_seq = 1\<rparr>"

text \<open>Request bodies for a new task in project 1 and for a new workspace.\<close>

definition task_payload :: "int option \<Rightarrow> TaskCreate" where
  "task_payload a =
     \<lparr>tc_title = ''new'', tc_description = None, tc_status = None, tc_priority = None,
      tc_due_date = None, tc_project_id = 1, tc_assignee_id = a\<rparr>"

definition ws_payload :: WorkspaceCreate where
  "ws_payload = \<lparr>wc_name = ''new'', wc_description = None\<rparr>"

text \<open>A database of 1001 workspaces, all owned by Alice.\<close>

definition many_workspaces :: "workspace list" where
  "many_workspaces =
     map (\<lambda>i. \<lparr>w_id = int i, w_name = ''w'', w_description = None, w_owner_id = 1\<rparr>)
       [1..<1002]"

definition db_many :: db where
  "db_many = \<lparr>users = [alice, root], workspaces = many_workspaces, workspace_members = [],
              projects = [], project_members = [], tasks = [],
              workspaces_id_seq = 1001, tasks_id_seq = 0\<rparr>"

section \<open>Basic facts\<close>

lemmas example_defs =
  db0_def alice_def bob_def root_def dan_def ws1_def ws2_def proj1_def task1_def

lemmas query_defs =
  get_user_def get_workspace_def get_project_def get_task_def
  workspace_members_rel_def project_members_rel_def user_in_def

lemma find_id_Some: "find (\<lambda>x. f x = i) xs = Some y \<Longrightarrow> f y = i \<and> y \<in> set xs"
  by (auto simp: find_Some_iff)

lemma get_user_id: "get_user d i = Some u \<Longrightarrow> u_id u = i \<and> u \<in> set (users d)"
  unfolding get_user_def by (rule find_id_Some)

lemma get_task_id: "get_task d i = Some t \<Longrightarrow> t_id t = i \<and> t \<in> set (tasks d)"
  unfolding get_task_def by (rule find_id_Some)

lemma get_workspace_id: "get_workspace d i = Some w \<Longrightarrow> w_id w = i \<and> w \<in> set (workspaces d)"
  unfolding get_workspace_def by (rule find_id_Some)

lemma get_project_id: "get_project d i = Some p \<Longrightarrow> p_id p = i \<and> p \<in> set (projects d)"
  unfolding get_project_def by (rule find_id_Some)

lemma user_in_workspace_members_rel:
  assumes "get_user d uid = Some u"
  shows "user_in u (workspace_members_rel d wid) \<longleftrightarrow> (wid, uid) \<in> set (workspace_members d)"
  using get_user_id [OF assms]
  by (auto simp: user_in_def workspace_members_rel_def)

lemma user_in_project_members_rel:
  assumes "get_user d uid = Some u"
  shows "user_in u (project_members_rel d pid) \<longleftrightarrow> (pid, uid) \<in> set (project_members d)"
  using get_user_id [OF assms]
  by (auto simp: user_in_def project_members_rel_def)


section \<open>Who may update and delete a task\<close>

lemma check_assignee_not_403:
  "check_assignee d a p w \<noteq> Some (HTTPException 403 ''Not enough permissions'')"
  by (simp add: check_assignee_def split: option.splits)

lemma commit_task_update_not_403:
  "fst (commit_task_update d t u) \<noteq> Inl (HTTPException 403 ''Not enough permissions'')"
  by (simp add: commit_task_update_def Let_def)

lemma update_task_403:
  assumes "get_task d task_id = Some t" "get_project d (t_project_id t) = Some p"
    "get_workspace d (p_workspace_id p) = Some w"
  shows "update_task d task_id task_in cu =
           (Inl (HTTPException 403 ''Not enough permissions''), d)
         \<longleftrightarrow> \<not> can_manage_task cu t w"
proof
  assume r: "update_task d task_id task_in cu =
               (Inl (HTTPException 403 ''Not enough permissions''), d)"
  show "\<not> can_manage_task cu t w"
  proof
    assume ok: "can_manage_task cu t w"
    let ?a = "case tu_assignee_id task_in of None \<Rightarrow> None | Some v \<Rightarrow> v"
    let ?c = "if truthy ?a \<and> ?a \<noteq> t_assignee_id t
              then check_assignee d (the ?a) p w else None"
    show False
    proof (cases ?c)
      case None
      with assms ok have "update_task d task_id task_in cu = commit_task_update d t task_in"
        by (simp add: update_task_def Let_def)
      with r commit_task_update_not_403 [of d t task_in] show False by simp
    next
      case (Some e)
      with assms ok have "update_task d task_id task_in cu = (Inl e, d)"
        by (simp add: update_task_def Let_def)
      with r have "e = HTTPException 403 ''Not enough permissions''" by simp
      with Some check_assignee_not_403 [of d "the ?a" p w] show False
        by (simp split: if_splits)
    qed
  qed
next
  assume "\<not> can_manage_task cu t w"
  with assms show "update_task d task_id task_in cu =
                     (Inl (HTTPException 403 ''Not enough permissions''), d)"
    by (simp add: update_task_def)
qed

lemma delete_task_403:
  assumes "get_task d task_id = Some t" "get_project d (t_project_id t) = Some p"
    "get_workspace d (p_workspace_id p) = Some w"
  shows "delete_task d task_id cu = (Inl (HTTPException 403 ''Not enough permissions''), d)
         \<longleftrightarrow> \<not> can_delete_task cu t w"
  using assms by (simp add: delete_task_def)

lemma service_delete_task_access:
  assumes "get_task d task_id = Some t" "get_project d (t_project_id t) = Some p"
  shows "fst (TaskService_delete_task d task_id uid) \<longleftrightarrow>
           (t_project_id t, uid) \<in> set (project_members d) \<or>
           (\<exists>w. get_workspace d (p_workspace_id p) = Some w \<and> w_owner_id w = uid) \<or>
           (p_workspace_id p, uid) \<in> set (workspace_members d)"
    and "\<not> fst (TaskService_delete_task d task_id uid) \<longrightarrow>
           snd (TaskService_delete_task d task_id uid) = d"
  using assms
  by (auto simp: TaskService_delete_task_def ProjectService_has_access_def
      ProjectService_is_member_def WorkspaceService_has_access_def
      WorkspaceService_is_owner_def WorkspaceService_is_member_def split: option.splits)

text \<open>
  C1 as stated fails: the assignee of a task who is neither a superuser, nor the
  owner of the workspace, nor the creator of the task is refused by the route
  \<^verbatim>\<open>delete_task\<close>. Bob is the assignee of task 1 and nothing else.
\<close>

theorem assignee_cannot_delete_counterexample:
  "get_task db0 1 = Some task1 \<and> t_assignee_id task1 = Some (u_id bob) \<and>
   delete_task db0 1 bob = (Inl (HTTPException 403 ''Not enough permissions''), db0)"
  by (simp add: delete_task_def can_delete_task_def example_defs query_defs)

text \<open>
  C1, as amended. For an existing task whose project and workspace exist: the route
  \<^verbatim>\<open>update_task\<close> answers 403 and leaves the database as it was exactly when the
  actor is none of superuser, workspace owner, creator, assignee; the route
  \<^verbatim>\<open>delete_task\<close> answers 403 and leaves the database as it was exactly when the
  actor is none of superuser, workspace owner, creator (being the assignee does not
  count); \<^verbatim>\<open>TaskService.delete_task\<close> succeeds exactly when the user is a member of
  the task's project, or the owner or a member of its workspace, and changes nothing
  when it fails.
\<close>

theorem task_update_delete_authorization:
  assumes "get_task d task_id = Some t" "get_project d (t_project_id t) = Some p"
    "get_workspace d (p_workspace_id p) = Some w"
  shows
   "(update_task d task_id task_in cu =
       (Inl (HTTPException 403 ''Not enough permissions''), d)
       \<longleftrightarrow> \<not> (u_is_superuser cu \<or> w_owner_id w = u_id cu \<or> t_created_by_id t = u_id cu \<or>
               t_assignee_id t = Some (u_id cu))) \<and>
    (delete_task d task_id cu = (Inl (HTTPException 403 ''Not enough permissions''), d)
       \<longleftrightarrow> \<not> (u_is_superuser cu \<or> w_owner_id w = u_id cu \<or> t_created_by_id t = u_id cu)) \<and>
    (fst (TaskService_delete_task d task_id uid) \<longleftrightarrow>
       (t_project_id t, uid) \<in> set (project_members d) \<or> w_owner_id w = uid \<or>
       (p_workspace_id p, uid) \<in> set (workspace_members d)) \<and>
    (\<not> fst (TaskService_delete_task d task_id uid) \<longrightarrow>
       snd (TaskService_delete_task d task_id uid) = d)"
  using update_task_403 [OF assms, of task_in cu] delete_task_403 [OF assms, of cu]
    service_delete_task_access [OF assms(1,2), of uid] assms(3)
  by (simp add: can_manage_task_def can_delete_task_def)

theorem task_update_delete_authorization_witness:
  "get_task db0 1 = Some task1 \<and> get_project db0 (t_project_id task1) = Some proj1 \<and>
   get_workspace db0 (p_workspace_id proj1) = Some ws1 \<and>
   update_task db0 1 (status_only (Some DONE)) bob \<noteq>
     (Inl (HTTPException 403 ''Not enough permissions''), db0) \<and>
   delete_task db0 1 bob = (Inl (HTTPException 403 ''Not enough permissions''), db0) \<and>
   \<not> fst (TaskService_delete_task db0 1 2) \<and> snd (TaskService_delete_task db0 1 2) = db0"
proof -
  have h1: "get_task db0 1 = Some task1"
    by (simp add: example_defs query_defs)
  have h2: "get_project db0 (t_project_id task1) = Some proj1"
    by (simp add: example_defs query_defs)
  have h3: "get_workspace db0 (p_workspace_id proj1) = Some ws1"
    by (simp add: example_defs query_defs)
  have roles: "\<not> u_is_superuser bob" "w_owner_id ws1 \<noteq> u_id bob"
    "t_created_by_id task1 \<noteq> u_id bob" "t_assignee_id task1 = Some (u_id bob)"
    "t_project_id task1 = 1" "p_workspace_id proj1 = 1" "u_id bob = 2"
    "project_members db0 = [(1, 1), (1, 4)]" "workspace_members db0 = [(1, 1)]"
    by (simp_all add: example_defs)
  show ?thesis
    using task_update_delete_authorization [OF h1 h2 h3, of "status_only (Some DONE)" bob 2]
      h1 h2 h3 roles
    by simp
qed

section \<open>Adding a user who is already a member\<close>

text \<open>
  C4 as stated fails for projects: Dan is a member of project 1 and has no access to
  its workspace, and \<^verbatim>\<open>ProjectService.add_member\<close> returns \<^verbatim>\<open>False\<close> for him.
\<close>

theorem project_member_without_access_counterexample:
  "get_project db0 1 = Some proj1 \<and> get_user db0 4 = Some dan \<and>
   (1, 4) \<in> set (project_members db0) \<and>
   ProjectService_add_member db0 1 4 = (False, db0)"
  by (simp add: ProjectService_add_member_def WorkspaceService_has_access_def
      WorkspaceService_is_owner_def WorkspaceService_is_member_def example_defs query_defs)

text \<open>
  C4, as amended. For an existing workspace and an existing user who has a membership
  row, \<^verbatim>\<open>WorkspaceService.add_member\<close> returns \<^verbatim>\<open>True\<close> and changes nothing, and
  the route \<^verbatim>\<open>add_workspace_member\<close>, called by a superuser or the owner, answers 400
  and changes nothing. For an existing project and an existing user who has a
  membership row, \<^verbatim>\<open>ProjectService.add_member\<close> changes nothing and returns whether
  the user has access to the project's workspace, and the route
  \<^verbatim>\<open>add_project_member\<close>, called by a superuser or the workspace owner, answers 400
  and changes nothing.
\<close>

theorem add_member_of_a_member:
  "(get_workspace d wid = Some w \<and> get_user d uid = Some u \<and>
    (wid, uid) \<in> set (workspace_members d) \<longrightarrow>
      WorkspaceService_add_member d wid uid = (True, d) \<and>
      (u_is_superuser cu \<or> w_owner_id w = u_id cu \<longrightarrow>
         add_workspace_member d wid uid cu =
           (Inl (HTTPException 400 ''User already in workspace''), d))) \<and>
   (get_project d pid = Some p \<and> get_user d uid = Some u \<and>
    (pid, uid) \<in> set (project_members d) \<longrightarrow>
      ProjectService_add_member d pid uid =
        (WorkspaceService_has_access d (p_workspace_id p) uid, d) \<and>
      (get_workspace d (p_workspace_id p) = Some w' \<and>
       (u_is_superuser cu \<or> w_owner_id w' = u_id cu) \<longrightarrow>
         add_project_member d pid uid cu =
           (Inl (HTTPException 400 ''User already in project''), d)))"
proof (intro conjI impI)
  assume a: "get_workspace d wid = Some w \<and> get_user d uid = Some u \<and>
    (wid, uid) \<in> set (workspace_members d)"
  then show "WorkspaceService_add_member d wid uid = (True, d)"
    by (simp add: WorkspaceService_add_member_def)
  assume "u_is_superuser cu \<or> w_owner_id w = u_id cu"
  with a get_workspace_id [of d wid w] user_in_workspace_members_rel [of d uid u wid]
  show "add_workspace_member d wid uid cu =
           (Inl (HTTPException 400 ''User already in workspace''), d)"
    by (simp add: add_workspace_member_def can_manage_workspace_def)
next
  assume a: "get_project d pid = Some p \<and> get_user d uid = Some u \<and>
    (pid, uid) \<in> set (project_members d)"
  then show "ProjectService_add_member d pid uid =
        (WorkspaceService_has_access d (p_workspace_id p) uid, d)"
    by (simp add: ProjectService_add_member_def)
  assume "get_workspace d (p_workspace_id p) = Some w' \<and>
       (u_is_superuser cu \<or> w_owner_id w' = u_id cu)"
  with a get_project_id [of d pid p] user_in_project_members_rel [of d uid u pid]
  show "add_project_member d pid uid cu =
           (Inl (HTTPException 400 ''User already in project''), d)"
    by (simp add: add_project_member_def can_manage_workspace_def)
qed

theorem add_member_of_a_member_witness:
  "get_workspace db0 1 = Some ws1 \<and> get_user db0 1 = Some alice \<and>
   (1, 1) \<in> set (workspace_members db0) \<and> w_owner_id ws1 = u_id alice \<and>
   WorkspaceService_add_member db0 1 1 = (True, db0) \<and>
   add_workspace_member db0 1 1 alice =
     (Inl (HTTPException 400 ''User already in workspace''), db0) \<and>
   get_project db0 1 = Some proj1 \<and> (1, 1) \<in> set (project_members db0) \<and>
   get_workspace db0 (p_workspace_id proj1) = Some ws1 \<and>
   ProjectService_add_member db0 1 1 = (True, db0) \<and>
   add_project_member db0 1 1 alice =
     (Inl (HTTPException 400 ''User already in project''), db0)"
proof -
  have h: "get_workspace db0 1 = Some ws1" "get_user db0 1 = Some alice"
    "(1, 1) \<in> set (workspace_members db0)" "w_owner_id ws1 = u_id alice"
    "get_project db0 1 = Some proj1" "(1, 1) \<in> set (project_members db0)"
    "get_workspace db0 (p_workspace_id proj1) = Some ws1"
    "WorkspaceService_has_access db0 (p_workspace_id proj1) 1"
    by (simp_all add: example_defs query_defs WorkspaceService_has_access_def
        WorkspaceService_is_owner_def WorkspaceService_is_member_def)
  show ?thesis
    using add_member_of_a_member [where d = db0 and wid = 1 and w = ws1 and uid = 1
        and u = alice and cu = alice and pid = 1 and p = proj1 and w' = ws1] h
    by simp
qed

section \<open>Project membership and workspace access\<close>

lemma ps_add_member_success:
  "fst (ProjectService_add_member d pid uid) \<Longrightarrow>
     \<exists>p. get_project d pid = Some p \<and> WorkspaceService_has_access d (p_workspace_id p) uid"
  by (auto simp: ProjectService_add_member_def split: option.splits if_splits)

lemma ps_add_member_rows:
  "set (project_members (snd (ProjectService_add_member d pid uid))) \<subseteq>
     insert (pid, uid) (set (project_members d))"
  by (auto simp: ProjectService_add_member_def split: option.splits if_splits)

lemma ps_add_member_fail_unchanged:
  "\<not> fst (ProjectService_add_member d pid uid) \<Longrightarrow> snd (ProjectService_add_member d pid uid) = d"
  by (auto simp: ProjectService_add_member_def split: option.splits if_splits)

text \<open>
  C9. \<^verbatim>\<open>ProjectService.add_member\<close> returns \<^verbatim>\<open>False\<close> and changes nothing for a
  user without access to the project's workspace, so the only membership row it can
  add is one for a user who has that access. The route \<^verbatim>\<open>add_project_member\<close>,
  called by a superuser or the workspace owner, adds any existing user who is not yet
  a member, with no condition on workspace access.
\<close>

theorem project_add_member_workspace_access:
  "(get_project d pid = Some p \<and> \<not> WorkspaceService_has_access d (p_workspace_id p) uid \<longrightarrow>
      ProjectService_add_member d pid uid = (False, d)) \<and>
   (m \<in> set (project_members (snd (ProjectService_add_member d pid uid))) \<and>
    m \<notin> set (project_members d) \<longrightarrow>
      m = (pid, uid) \<and>
      (\<exists>q. get_project d pid = Some q \<and>
           WorkspaceService_has_access d (p_workspace_id q) uid)) \<and>
   (get_project d pid = Some p \<and> get_workspace d (p_workspace_id p) = Some w \<and>
    (u_is_superuser cu \<or> w_owner_id w = u_id cu) \<and> get_user d uid = Some u \<and>
    (pid, uid) \<notin> set (project_members d) \<longrightarrow>
      add_project_member d pid uid cu =
        (Inr p, d\<lparr>project_members := project_members d @ [(pid, uid)]\<rparr>))"
proof (intro conjI impI)
  assume "get_project d pid = Some p \<and> \<not> WorkspaceService_has_access d (p_workspace_id p) uid"
  then show "ProjectService_add_member d pid uid = (False, d)"
    by (simp add: ProjectService_add_member_def split: option.splits)
next
  assume a: "m \<in> set (project_members (snd (ProjectService_add_member d pid uid))) \<and>
    m \<notin> set (project_members d)"
  with ps_add_member_rows [of d pid uid] show "m = (pid, uid)" by auto
  have "fst (ProjectService_add_member d pid uid)"
  proof (rule ccontr)
    assume "\<not> fst (ProjectService_add_member d pid uid)"
    then have "snd (ProjectService_add_member d pid uid) = d"
      by (rule ps_add_member_fail_unchanged)
    with a show False by simp
  qed
  then show "\<exists>q. get_project d pid = Some q \<and>
           WorkspaceService_has_access d (p_workspace_id q) uid"
    by (rule ps_add_member_success)
next
  assume a: "get_project d pid = Some p \<and> get_workspace d (p_workspace_id p) = Some w \<and>
    (u_is_superuser cu \<or> w_owner_id w = u_id cu) \<and> get_user d uid = Some u \<and>
    (pid, uid) \<notin> set (project_members d)"
  with get_project_id [of d pid p] get_user_id [of d uid u]
    user_in_project_members_rel [of d uid u pid]
  show "add_project_member d pid uid cu =
        (Inr p, d\<lparr>project_members := project_members d @ [(pid, uid)]\<rparr>)"
    by (simp add: add_project_member_def can_manage_workspace_def)
qed

theorem project_add_member_workspace_access_witness:
  "get_project db0 1 = Some proj1 \<and> \<not> WorkspaceService_has_access db0 (p_workspace_id proj1) 2 \<and>
   ProjectService_add_member db0 1 2 = (False, db0) \<and>
   get_workspace db0 (p_workspace_id proj1) = Some ws1 \<and> w_owner_id ws1 = u_id alice \<and>
   get_user db0 2 = Some bob \<and> (1, 2) \<notin> set (project_members db0) \<and>
   add_project_member db0 1 2 alice =
     (Inr proj1, db0\<lparr>project_members := project_members db0 @ [(1, 2)]\<rparr>)"
proof -
  have h: "get_project db0 1 = Some proj1"
    "\<not> WorkspaceService_has_access db0 (p_workspace_id proj1) 2"
    "get_workspace db0 (p_workspace_id proj1) = Some ws1" "w_owner_id ws1 = u_id alice"
    "get_user db0 2 = Some bob" "(1, 2) \<notin> set (project_members db0)"
    by (simp_all add: example_defs query_defs WorkspaceService_has_access_def
        WorkspaceService_is_owner_def WorkspaceService_is_member_def)
  show ?thesis
    using project_add_member_workspace_access [of db0 1 proj1 2 "(1, 2)" ws1 alice bob] h
    by simp
qed

section \<open>Listing the workspaces of a user\<close>

text \<open>
  C10. A workspace without any row in \<^verbatim>\<open>workspace_members\<close> is not in the result
  of \<^verbatim>\<open>WorkspaceService.get_workspaces_by_user\<close>, whoever the user is, its owner
  included; the query returns a result for every window the database accepts.
\<close>

theorem get_workspaces_by_user_needs_a_member_row:
  "((\<forall>m \<in> set (workspace_members d). fst m \<noteq> w_id w) \<and>
    WorkspaceService_get_workspaces_by_user d user_id skip limit = Inr ws \<longrightarrow> w \<notin> set ws) \<and>
   (0 \<le> skip \<and> skip \<le> 9223372036854775807 \<and> 0 \<le> limit \<and> limit \<le> 9223372036854775807 \<longrightarrow>
      (\<exists>ws. WorkspaceService_get_workspaces_by_user d user_id skip limit = Inr ws))"
proof (intro conjI impI)
  assume a: "(\<forall>m \<in> set (workspace_members d). fst m \<noteq> w_id w) \<and>
    WorkspaceService_get_workspaces_by_user d user_id skip limit = Inr ws"
  let ?rows = "remdups [w. w \<leftarrow> workspaces d, m \<leftarrow> workspace_members d, w_id w = fst m,
                    w_owner_id w = user_id \<or> snd m = user_id]"
  from a have "ws = take (nat limit) (drop (nat skip) ?rows)"
    by (auto simp: WorkspaceService_get_workspaces_by_user_def offset_limit_def split: if_splits)
  then have "set ws \<subseteq> set ?rows"
    using set_take_subset [of "nat limit" "drop (nat skip) ?rows"]
      set_drop_subset [of "nat skip" ?rows] by blast
  moreover from a have "w \<notin> set ?rows" by fastforce
  ultimately show "w \<notin> set ws" by auto
next
  assume "0 \<le> skip \<and> skip \<le> 9223372036854775807 \<and> 0 \<le> limit \<and> limit \<le> 9223372036854775807"
  then show "\<exists>ws. WorkspaceService_get_workspaces_by_user d user_id skip limit = Inr ws"
    by (simp add: WorkspaceService_get_workspaces_by_user_def offset_limit_def)
qed

theorem get_workspaces_by_user_needs_a_member_row_witness:
  "workspace_members db0 = [(1, 1)] \<and> w_id ws2 = 2 \<and> w_owner_id ws2 = 1 \<and>
   ws2 \<in> set (workspaces db0) \<and>
   WorkspaceService_get_workspaces_by_user db0 1 0 100 = Inr [ws1] \<and> ws2 \<notin> set [ws1]"
proof -
  have h: "\<forall>m \<in> set (workspace_members db0). fst m \<noteq> w_id ws2"
    by (simp add: example_defs)
  have r: "WorkspaceService_get_workspaces_by_user db0 1 0 100 = Inr [ws1]"
    by (simp add: WorkspaceService_get_workspaces_by_user_def offset_limit_def example_defs)
  show ?thesis
    using get_workspaces_by_user_needs_a_member_row [of db0 ws2 1 0 100 "[ws1]"] h r
    by (simp add: example_defs)
qed

section \<open>Partial update of a task\<close>

lemma find_map_replace:
  assumes "find (\<lambda>x. g x = i) xs = Some t" "g t' = i"
  shows "find (\<lambda>x. g x = i) (map (\<lambda>x. if g x = i then t' else x) xs) = Some t'"
  using assms by (induction xs) (auto split: if_splits)

lemma setattrs_status_only:
  "setattrs (status_only sv) t = t\<lparr>t_status := (case sv of Some v \<Rightarrow> v | None \<Rightarrow> t_status t)\<rparr>"
  by (cases sv) (simp_all add: setattrs_def status_only_def)

lemma commit_status_only:
  "commit_task_update d t (status_only (Some s)) =
     (Inr (t\<lparr>t_status := s\<rparr>),
      d\<lparr>tasks := map (\<lambda>x. if t_id x = t_id t then t\<lparr>t_status := s\<rparr> else x) (tasks d)\<rparr>)"
  by (simp add: commit_task_update_def setattrs_status_only Let_def)
     (simp add: sets_null_def status_only_def)

lemma commit_status_only_frame:
  assumes "commit_task_update d t (status_only sv) = (Inr t', d')"
  shows "t_title t' = t_title t \<and> t_priority t' = t_priority t \<and>
         t_assignee_id t' = t_assignee_id t"
  using assms
  by (auto simp: commit_task_update_def setattrs_status_only Let_def split: if_splits)

lemma update_task_status_only:
  assumes "get_task d task_id = Some t" "get_project d (t_project_id t) = Some p"
    "get_workspace d (p_workspace_id p) = Some w" "can_manage_task cu t w"
  shows "update_task d task_id (status_only sv) cu = commit_task_update d t (status_only sv)"
  using assms by (simp add: update_task_def truthy_def) (simp add: status_only_def truthy_def)

lemma service_update_task_status_only:
  assumes "get_task d task_id = Some t" "ProjectService_has_access d (t_project_id t) uid"
  shows "TaskService_update_task d task_id (status_only sv) uid =
          (case commit_task_update d t (status_only sv) of
             (Inl e, d1) \<Rightarrow> (Inl e, d1) | (Inr t', d1) \<Rightarrow> (Inr (Some t'), d1))"
  using assms by (simp add: TaskService_update_task_def) (simp add: status_only_def)

lemma get_task_after_status:
  assumes "get_task d task_id = Some t"
  shows "get_task (d\<lparr>tasks := map (\<lambda>x. if t_id x = t_id t then t\<lparr>t_status := s\<rparr> else x) (tasks d)\<rparr>) task_id
           = Some (t\<lparr>t_status := s\<rparr>)"
proof -
  from assms have i: "t_id t = task_id" by (simp add: get_task_id)
  from assms have "find (\<lambda>x. t_id x = task_id) (tasks d) = Some t" by (simp add: get_task_def)
  from find_map_replace [OF this, of "t\<lparr>t_status := s\<rparr>"] i show ?thesis
    by (simp add: get_task_def)
qed

text \<open>
  C7. An update that sends only a status: for an actor the route \<^verbatim>\<open>update_task\<close>
  lets through (and, in the service, a user with access to the project) it succeeds,
  the stored task has the new status, and title, priority and assignee are those of
  the task before. Whatever is sent as the status, a task that comes back from the
  update has the title, priority and assignee it had.
\<close>

theorem status_only_update_keeps_other_fields:
  "(get_task d task_id = Some t \<and> get_project d (t_project_id t) = Some p \<and>
    get_workspace d (p_workspace_id p) = Some w \<and>
    (u_is_superuser cu \<or> w_owner_id w = u_id cu \<or> t_created_by_id t = u_id cu \<or>
     t_assignee_id t = Some (u_id cu)) \<longrightarrow>
      (\<exists>t'. fst (update_task d task_id (status_only (Some s)) cu) = Inr t' \<and>
            get_task (snd (update_task d task_id (status_only (Some s)) cu)) task_id = Some t' \<and>
            t_status t' = s \<and> t_title t' = t_title t \<and> t_priority t' = t_priority t \<and>
            t_assignee_id t' = t_assignee_id t)) \<and>
   (get_task d task_id = Some t \<and> ProjectService_has_access d (t_project_id t) uid \<longrightarrow>
      (\<exists>t'. fst (TaskService_update_task d task_id (status_only (Some s)) uid) = Inr (Some t') \<and>
            get_task (snd (TaskService_update_task d task_id (status_only (Some s)) uid)) task_id
              = Some t' \<and>
            t_status t' = s \<and> t_title t' = t_title t \<and> t_priority t' = t_priority t \<and>
            t_assignee_id t' = t_assignee_id t)) \<and>
   (get_task d task_id = Some t \<and> fst (update_task d task_id (status_only sv) cu) = Inr t1 \<longrightarrow>
      t_title t1 = t_title t \<and> t_priority t1 = t_priority t \<and>
      t_assignee_id t1 = t_assignee_id t) \<and>
   (get_task d task_id = Some t \<and>
    fst (TaskService_update_task d task_id (status_only sv) uid) = Inr (Some t2) \<longrightarrow>
      t_title t2 = t_title t \<and> t_priority t2 = t_priority t \<and>
      t_assignee_id t2 = t_assignee_id t)"
proof -
  have p1: "get_task d task_id = Some t \<and> get_project d (t_project_id t) = Some p \<and>
    get_workspace d (p_workspace_id p) = Some w \<and>
    (u_is_superuser cu \<or> w_owner_id w = u_id cu \<or> t_created_by_id t = u_id cu \<or>
     t_assignee_id t = Some (u_id cu)) \<longrightarrow>
      (\<exists>t'. fst (update_task d task_id (status_only (Some s)) cu) = Inr t' \<and>
            get_task (snd (update_task d task_id (status_only (Some s)) cu)) task_id = Some t' \<and>
            t_status t' = s \<and> t_title t' = t_title t \<and> t_priority t' = t_priority t \<and>
            t_assignee_id t' = t_assignee_id t)"
  proof
    assume a: "get_task d task_id = Some t \<and> get_project d (t_project_id t) = Some p \<and>
      get_workspace d (p_workspace_id p) = Some w \<and>
      (u_is_superuser cu \<or> w_owner_id w = u_id cu \<or> t_created_by_id t = u_id cu \<or>
       t_assignee_id t = Some (u_id cu))"
    then have "update_task d task_id (status_only (Some s)) cu =
        commit_task_update d t (status_only (Some s))"
      using update_task_status_only [of d task_id t p w cu "Some s"]
      by (simp add: can_manage_task_def)
    with a get_task_after_status [of d task_id t s]
    show "\<exists>t'. fst (update_task d task_id (status_only (Some s)) cu) = Inr t' \<and>
            get_task (snd (update_task d task_id (status_only (Some s)) cu)) task_id = Some t' \<and>
            t_status t' = s \<and> t_title t' = t_title t \<and> t_priority t' = t_priority t \<and>
            t_assignee_id t' = t_assignee_id t"
      by (simp add: commit_status_only)
  qed
  have p2: "get_task d task_id = Some t \<and> ProjectService_has_access d (t_project_id t) uid \<longrightarrow>
      (\<exists>t'. fst (TaskService_update_task d task_id (status_only (Some s)) uid) = Inr (Some t') \<and>
            get_task (snd (TaskService_update_task d task_id (status_only (Some s)) uid)) task_id
              = Some t' \<and>
            t_status t' = s \<and> t_title t' = t_title t \<and> t_priority t' = t_priority t \<and>
            t_assignee_id t' = t_assignee_id t)"
  proof
    assume a: "get_task d task_id = Some t \<and> ProjectService_has_access d (t_project_id t) uid"
    with service_update_task_status_only [of d task_id t uid "Some s"]
      get_task_after_status [of d task_id t s]
    show "\<exists>t'. fst (TaskService_update_task d task_id (status_only (Some s)) uid) = Inr (Some t') \<and>
            get_task (snd (TaskService_update_task d task_id (status_only (Some s)) uid)) task_id
              = Some t' \<and>
            t_status t' = s \<and> t_title t' = t_title t \<and> t_priority t' = t_priority t \<and>
            t_assignee_id t' = t_assignee_id t"
      by (simp add: commit_status_only)
  qed
  have p3: "get_task d task_id = Some t \<and>
      fst (update_task d task_id (status_only sv) cu) = Inr t1 \<longrightarrow>
      t_title t1 = t_title t \<and> t_priority t1 = t_priority t \<and>
      t_assignee_id t1 = t_assignee_id t"
  proof
    assume a: "get_task d task_id = Some t \<and>
      fst (update_task d task_id (status_only sv) cu) = Inr t1"
    then have "\<exists>d'. commit_task_update d t (status_only sv) = (Inr t1, d')"
      by (cases "commit_task_update d t (status_only sv)")
         (auto simp: update_task_def Let_def split: option.splits if_splits)
    with commit_status_only_frame
    show "t_title t1 = t_title t \<and> t_priority t1 = t_priority t \<and>
        t_assignee_id t1 = t_assignee_id t" by blast
  qed
  have p4: "get_task d task_id = Some t \<and>
      fst (TaskService_update_task d task_id (status_only sv) uid) = Inr (Some t2) \<longrightarrow>
      t_title t2 = t_title t \<and> t_priority t2 = t_priority t \<and>
      t_assignee_id t2 = t_assignee_id t"
  proof
    assume a: "get_task d task_id = Some t \<and>
      fst (TaskService_update_task d task_id (status_only sv) uid) = Inr (Some t2)"
    then have "\<exists>d'. commit_task_update d t (status_only sv) = (Inr t2, d')"
      by (cases "commit_task_update d t (status_only sv)")
         (auto simp: TaskService_update_task_def split: option.splits if_splits sum.splits)
    with commit_status_only_frame
    show "t_title t2 = t_title t \<and> t_priority t2 = t_priority t \<and>
        t_assignee_id t2 = t_assignee_id t" by blast
  qed
  show ?thesis
    by (rule conjI [OF p1 conjI [OF p2 conjI [OF p3 p4]]])
qed

theorem status_only_update_keeps_other_fields_witness:
  "get_task db0 1 = Some task1 \<and> get_project db0 (t_project_id task1) = Some proj1 \<and>
   get_workspace db0 (p_workspace_id proj1) = Some ws1 \<and>
   t_assignee_id task1 = Some (u_id bob) \<and>
   ProjectService_has_access db0 (t_project_id task1) 1 \<and>
   fst (update_task db0 1 (status_only (Some DONE)) bob) = Inr (task1\<lparr>t_status := DONE\<rparr>) \<and>
   fst (TaskService_update_task db0 1 (status_only (Some DONE)) 1) =
     Inr (Some (task1\<lparr>t_status := DONE\<rparr>))"
proof -
  have h: "get_task db0 1 = Some task1" "get_project db0 (t_project_id task1) = Some proj1"
    "get_workspace db0 (p_workspace_id proj1) = Some ws1"
    "t_assignee_id task1 = Some (u_id bob)"
    "ProjectService_has_access db0 (t_project_id task1) 1"
    by (simp_all add: example_defs query_defs ProjectService_has_access_def
        ProjectService_is_member_def)
  have r: "fst (update_task db0 1 (status_only (Some DONE)) bob) =
             Inr (task1\<lparr>t_status := DONE\<rparr>)"
    using update_task_status_only [OF h(1,2,3), of bob "Some DONE"] h(4)
    by (simp add: can_manage_task_def commit_status_only)
  have r': "fst (TaskService_update_task db0 1 (status_only (Some DONE)) 1) =
              Inr (Some (task1\<lparr>t_status := DONE\<rparr>))"
    using service_update_task_status_only [OF h(1) h(5), of "Some DONE"]
    by (simp add: commit_status_only)
  show ?thesis
    using status_only_update_keeps_other_fields
      [where d = db0 and task_id = 1 and t = task1 and p = proj1 and w = ws1 and cu = bob
         and s = DONE and uid = 1 and sv = "Some DONE" and ?t1.0 = "task1\<lparr>t_status := DONE\<rparr>"
         and ?t2.0 = "task1\<lparr>t_status := DONE\<rparr>"] h r r'
    by simp
qed

section \<open>Creating a task\<close>

lemma service_create_task_never_persists:
  "fst (TaskService_create_task d task pid cid) \<noteq> Inr (Some t) \<and>
   tasks (snd (TaskService_create_task d task pid cid)) = tasks d"
  by (simp add: TaskService_create_task_def)

lemma route_create_task_creator:
  "create_task d task_in cu = (Inr t, d') \<Longrightarrow>
     t_created_by_id t = u_id cu \<and> t \<in> set (tasks d')"
  by (auto simp: create_task_def insert_task_def Let_def split: option.splits if_splits)

text \<open>
  C2 holds on the route and not in the service. Alice has access to project 1; the
  route \<^verbatim>\<open>create_task\<close> stores her task with \<^verbatim>\<open>created_by_id\<close> equal to her id,
  while \<^verbatim>\<open>TaskService.create_task\<close> with the same payload raises \<^verbatim>\<open>TypeError\<close>
  at the constructor call and stores nothing.
\<close>

theorem service_create_task_raises:
  "ProjectService_has_access db0 1 (u_id alice) \<and>
   TaskService_create_task db0 (task_payload None) 1 (u_id alice) = (Inl TypeError, db0) \<and>
   map_sum id t_created_by_id (fst (create_task db0 (task_payload None) alice)) =
     Inr (u_id alice)"
  by (simp add: TaskService_create_task_def ProjectService_has_access_def
      ProjectService_is_member_def truthy_def Task_attributes_def task_payload_def
      create_task_def can_read_project_def insert_task_def Let_def example_defs query_defs)

section \<open>Creating a workspace\<close>

lemma find_append_new:
  "find P xs = None \<Longrightarrow> P y \<Longrightarrow> find P (xs @ [y]) = Some y"
  by (induction xs) (auto split: if_splits)

lemma route_create_workspace_members:
  "workspace_members (snd (create_workspace d workspace_in cu)) = workspace_members d"
  by (simp add: create_workspace_def insert_workspace_def Let_def)

lemma service_create_workspace_member:
  assumes "WorkspaceService_create_workspace d workspace owner_id = (Inr w, d')"
  shows "WorkspaceService_is_member d' (w_id w) owner_id"
proof -
  let ?n = "workspaces_id_seq d + 1"
  let ?w = "\<lparr>w_id = ?n, w_name = wc_name workspace, w_description = wc_description workspace,
             w_owner_id = owner_id\<rparr>"
  let ?d1 = "d\<lparr>workspaces_id_seq := ?n, workspaces := workspaces d @ [?w]\<rparr>"
  from assms have ok: "get_workspace d ?n = None" "get_user d owner_id \<noteq> None"
    by (auto simp: WorkspaceService_create_workspace_def insert_workspace_def Let_def
        split: if_splits)
  then have ins: "insert_workspace d
             \<lparr>w_id = 0, w_name = wc_name workspace, w_description = wc_description workspace,
              w_owner_id = owner_id\<rparr> = (Inr ?w, ?d1)"
    by (simp add: insert_workspace_def Let_def)
  with assms have w: "w = ?w" and d': "d' = snd (WorkspaceService_add_member ?d1 ?n owner_id)"
    by (auto simp: WorkspaceService_create_workspace_def)
  from ok(1) have gw: "get_workspace ?d1 ?n = Some ?w"
    by (simp add: get_workspace_def find_append_new)
  from ok(2) obtain u where gu: "get_user ?d1 owner_id = Some u"
    by (auto simp: get_user_def)
  from gw gu have "(?n, owner_id) \<in> set (workspace_members
      (snd (WorkspaceService_add_member ?d1 ?n owner_id)))"
    by (simp add: WorkspaceService_add_member_def)
  with w d' show ?thesis by (simp add: WorkspaceService_is_member_def)
qed

text \<open>
  C3 holds in the service and not on the route. For the same request by Alice,
  \<^verbatim>\<open>WorkspaceService.create_workspace\<close> leaves her a member of the new workspace 3,
  and the route \<^verbatim>\<open>create_workspace\<close> creates the workspace without a membership
  row, so that \<^verbatim>\<open>is_member\<close> is false right after.
\<close>

theorem route_create_workspace_adds_no_member:
  "fst (create_workspace db0 ws_payload alice) =
     Inr \<lparr>w_id = 3, w_name = ''new'', w_description = None, w_owner_id = 1\<rparr> \<and>
   \<not> WorkspaceService_is_member (snd (create_workspace db0 ws_payload alice)) 3 (u_id alice) \<and>
   fst (WorkspaceService_create_workspace db0 ws_payload (u_id alice)) =
     Inr \<lparr>w_id = 3, w_name = ''new'', w_description = None, w_owner_id = 1\<rparr> \<and>
   WorkspaceService_is_member
     (snd (WorkspaceService_create_workspace db0 ws_payload (u_id alice))) 3 (u_id alice)"
  by (simp add: create_workspace_def WorkspaceService_create_workspace_def
      insert_workspace_def WorkspaceService_add_member_def WorkspaceService_is_member_def
      ws_payload_def Let_def example_defs query_defs)

section \<open>Superusers and the assignee check\<close>











section \<open>Listing tasks\<close>

lemma offset_limit_subset:
  "offset_limit skip limit rows = Inr ts \<Longrightarrow> set ts \<subseteq> set rows"
proof -
  assume "offset_limit skip limit rows = Inr ts"
  then have "ts = take (nat limit) (drop (nat skip) rows)"
    by (simp add: offset_limit_def split: if_splits)
  then show ?thesis
    using set_take_subset [of "nat limit" "drop (nat skip) rows"]
      set_drop_subset [of "nat skip" rows] by blast
qed

lemma offset_limit_all:
  assumes "offset_limit 0 limit rows = Inr ts" "length ts < nat limit"
  shows "ts = rows"
proof -
  from assms(1) have ts: "ts = take (nat limit) rows"
    by (simp add: offset_limit_def split: if_splits)
  with assms(2) have "length rows < nat limit" by (simp add: min_def split: if_splits)
  with ts show ?thesis by simp
qed

lemma read_tasks_rows:
  assumes "\<not> u_is_superuser cu"
    "read_tasks d skip limit project_id status assignee_id cu = Inr ts" "t \<in> set ts"
  shows "t \<in> set (tasks d) \<and>
     (truthy project_id \<longrightarrow> Some (t_project_id t) = project_id) \<and>
     (status \<noteq> None \<longrightarrow> Some (t_status t) = status) \<and>
     (truthy assignee_id \<longrightarrow> t_assignee_id t = assignee_id) \<and>
     (\<exists>p \<in> set (projects d). \<exists>w \<in> set (workspaces d).
        p_id p = t_project_id t \<and> w_id w = p_workspace_id p \<and> can_read_task d cu t p w)"
proof -
  let ?q1 = "if truthy project_id
             then filter (\<lambda>t. Some (t_project_id t) = project_id) (tasks d) else tasks d"
  let ?q2 = "if status \<noteq> None then filter (\<lambda>t. Some (t_status t) = status) ?q1 else ?q1"
  let ?q3 = "if truthy assignee_id then filter (\<lambda>t. t_assignee_id t = assignee_id) ?q2 else ?q2"
  let ?q4 = "[t. t \<leftarrow> ?q3, p \<leftarrow> projects d, p_id p = t_project_id t,
                 w \<leftarrow> workspaces d, w_id w = p_workspace_id p,
                 t_assignee_id t = Some (u_id cu) \<or> t_created_by_id t = u_id cu \<or>
                 user_in cu (project_members_rel d (p_id p)) \<or> w_owner_id w = u_id cu \<or>
                 user_in cu (workspace_members_rel d (w_id w))]"
  from assms(2) have "offset_limit skip limit (if \<not> u_is_superuser cu then ?q4 else ?q3) = Inr ts"
    unfolding read_tasks_def Let_def .
  then have "offset_limit skip limit ?q4 = Inr ts"
    unfolding if_P [OF assms(1)] .
  with assms(3) have m: "t \<in> set ?q4" using offset_limit_subset by blast
  then have q3: "t \<in> set ?q3" by auto
  from q3 have f: "t \<in> set (tasks d) \<and>
     (truthy project_id \<longrightarrow> Some (t_project_id t) = project_id) \<and>
     (status \<noteq> None \<longrightarrow> Some (t_status t) = status) \<and>
     (truthy assignee_id \<longrightarrow> t_assignee_id t = assignee_id)"
    by (auto split: if_splits)
  from m have "\<exists>p \<in> set (projects d). \<exists>w \<in> set (workspaces d).
        p_id p = t_project_id t \<and> w_id w = p_workspace_id p \<and> can_read_task d cu t p w"
    by (auto simp: can_read_task_def)
  with f show ?thesis by simp
qed

lemma read_tasks_complete:
  assumes "\<not> u_is_superuser cu" "read_tasks d 0 limit None None None cu = Inr ts"
    "length ts < nat limit" "t \<in> set (tasks d)" "p \<in> set (projects d)"
    "p_id p = t_project_id t" "w \<in> set (workspaces d)" "w_id w = p_workspace_id p"
    "can_read_task d cu t p w"
  shows "t \<in> set ts"
proof -
  let ?q4 = "[t. t \<leftarrow> tasks d, p \<leftarrow> projects d, p_id p = t_project_id t,
                 w \<leftarrow> workspaces d, w_id w = p_workspace_id p,
                 t_assignee_id t = Some (u_id cu) \<or> t_created_by_id t = u_id cu \<or>
                 user_in cu (project_members_rel d (p_id p)) \<or> w_owner_id w = u_id cu \<or>
                 user_in cu (workspace_members_rel d (w_id w))]"
  from assms(1,2) have "offset_limit 0 limit ?q4 = Inr ts"
    by (simp add: read_tasks_def Let_def truthy_def)
  from offset_limit_all [OF this assms(3)] have ts: "ts = ?q4" .
  from assms(1,4-9) have "t \<in> set ?q4"
    by (fastforce simp: can_read_task_def)
  with ts show ?thesis by simp
qed

lemma service_tasks_rows:
  assumes "TaskService_get_tasks_by_user_access d uid status skip limit = Inr ts" "t \<in> set ts"
  shows "t \<in> set (tasks d) \<and> (t_project_id t, uid) \<in> set (project_members d) \<and>
         (status \<noteq> None \<longrightarrow> Some (t_status t) = status)"
proof -
  let ?rows = "[p. p \<leftarrow> projects d, m \<leftarrow> project_members d, p_id p = fst m, snd m = uid]"
  obtain ps where ps: "ProjectService_get_projects_by_user d uid 0 100 = Inr ps"
    by (simp add: ProjectService_get_projects_by_user_def offset_limit_def)
  then have "set ps \<subseteq> set ?rows"
    unfolding ProjectService_get_projects_by_user_def by (rule offset_limit_subset)
  then have ids: "\<forall>i \<in> set (map p_id ps). (i, uid) \<in> set (project_members d)"
    by fastforce
  let ?q0 = "filter (\<lambda>t. t_project_id t \<in> set (map p_id ps)) (tasks d)"
  let ?q1 = "if status \<noteq> None then filter (\<lambda>t. Some (t_status t) = status) ?q0 else ?q0"
  from assms ps have ne: "map p_id ps \<noteq> []"
    by (auto simp: TaskService_get_tasks_by_user_access_def Let_def split: if_splits)
  from assms(1) have "(if map p_id ps = [] then Inr [] else offset_limit skip limit ?q1) = Inr ts"
    unfolding TaskService_get_tasks_by_user_access_def Let_def ps sum.case .
  then have "offset_limit skip limit ?q1 = Inr ts"
    unfolding if_not_P [OF ne] .
  with assms(2) have "t \<in> set ?q1" using offset_limit_subset by blast
  with ids show ?thesis by (auto split: if_splits)
qed


lemma join_none:
  "\<forall>x \<in> set xs. f x \<noteq> k \<Longrightarrow> concat (map (\<lambda>x. if f x = k then g x else []) xs) = []"
  by (induction xs) auto

lemma join_unique:
  "distinct (map f xs) \<Longrightarrow>
     concat (map (\<lambda>x. if f x = k then g x else []) xs) =
       (case find (\<lambda>x. f x = k) xs of None \<Rightarrow> [] | Some x \<Rightarrow> g x)"
proof (induction xs)
  case Nil
  then show ?case by simp
next
  case (Cons x xs)
  show ?case
  proof (cases "f x = k")
    case True
    from Cons.prems have "f x \<notin> f ` set xs" by simp
    with True have "\<forall>y \<in> set xs. f y \<noteq> k" by blast
    then have "concat (map (\<lambda>x. if f x = k then g x else []) xs) = []" by (rule join_none)
    with True show ?thesis by simp
  next
    case False
    with Cons show ?thesis by simp
  qed
qed

lemma concat_map_filter: "concat (map (\<lambda>t. if P t then [t] else []) xs) = filter P xs"
  by (induction xs) auto

lemma read_tasks_eq:
  "read_tasks d skip limit project_id status assignee_id cu =
     offset_limit skip limit
       (if u_is_superuser cu
        then filter (\<lambda>t. (truthy project_id \<longrightarrow> Some (t_project_id t) = project_id) \<and>
                          (status \<noteq> None \<longrightarrow> Some (t_status t) = status) \<and>
                          (truthy assignee_id \<longrightarrow> t_assignee_id t = assignee_id)) (tasks d)
        else [t. t \<leftarrow> filter (\<lambda>t. (truthy project_id \<longrightarrow> Some (t_project_id t) = project_id) \<and>
                          (status \<noteq> None \<longrightarrow> Some (t_status t) = status) \<and>
                          (truthy assignee_id \<longrightarrow> t_assignee_id t = assignee_id)) (tasks d),
                 p \<leftarrow> projects d, p_id p = t_project_id t,
                 w \<leftarrow> workspaces d, w_id w = p_workspace_id p,
                 t_assignee_id t = Some (u_id cu) \<or> t_created_by_id t = u_id cu \<or>
                 user_in cu (project_members_rel d (p_id p)) \<or> w_owner_id w = u_id cu \<or>
                 user_in cu (workspace_members_rel d (w_id w))])"
  by (cases "truthy project_id"; cases status; cases "truthy assignee_id";
      cases "u_is_superuser cu")
     (simp_all add: read_tasks_def Let_def)

lemma read_tasks_exact:
  assumes ns: "\<not> u_is_superuser cu" and dp: "distinct (map p_id (projects d))"
    and dw: "distinct (map w_id (workspaces d))"
  shows "read_tasks d skip limit project_id status assignee_id cu =
     offset_limit skip limit
       (filter (\<lambda>t. (truthy project_id \<longrightarrow> Some (t_project_id t) = project_id) \<and>
                     (status \<noteq> None \<longrightarrow> Some (t_status t) = status) \<and>
                     (truthy assignee_id \<longrightarrow> t_assignee_id t = assignee_id) \<and>
                     (\<exists>p w. get_project d (t_project_id t) = Some p \<and>
                            get_workspace d (p_workspace_id p) = Some w \<and>
                            can_read_task d cu t p w))
          (tasks d))"
proof -
  let ?F = "\<lambda>t. (truthy project_id \<longrightarrow> Some (t_project_id t) = project_id) \<and>
                 (status \<noteq> None \<longrightarrow> Some (t_status t) = status) \<and>
                 (truthy assignee_id \<longrightarrow> t_assignee_id t = assignee_id)"
  let ?c = "\<lambda>t p w. t_assignee_id t = Some (u_id cu) \<or> t_created_by_id t = u_id cu \<or>
                 user_in cu (project_members_rel d (p_id p)) \<or> w_owner_id w = u_id cu \<or>
                 user_in cu (workspace_members_rel d (w_id w))"
  let ?R = "\<lambda>t. \<exists>p w. get_project d (t_project_id t) = Some p \<and>
                   get_workspace d (p_workspace_id p) = Some w \<and> can_read_task d cu t p w"
  have inner: "\<And>t p. concat (map (\<lambda>w. if w_id w = p_workspace_id p
                                       then (if ?c t p w then [t] else []) else [])
                               (workspaces d)) =
          (case get_workspace d (p_workspace_id p) of None \<Rightarrow> []
           | Some w \<Rightarrow> if ?c t p w then [t] else [])"
    unfolding get_workspace_def by (rule join_unique [OF dw])
  have outer: "\<And>t. concat (map (\<lambda>p. if p_id p = t_project_id t
             then (case get_workspace d (p_workspace_id p) of None \<Rightarrow> []
                   | Some w \<Rightarrow> if ?c t p w then [t] else []) else []) (projects d)) =
          (case get_project d (t_project_id t) of None \<Rightarrow> []
           | Some p \<Rightarrow> (case get_workspace d (p_workspace_id p) of None \<Rightarrow> []
                        | Some w \<Rightarrow> if ?c t p w then [t] else []))"
    unfolding get_project_def by (rule join_unique [OF dp])
  have row: "\<And>t. (case get_project d (t_project_id t) of None \<Rightarrow> []
           | Some p \<Rightarrow> (case get_workspace d (p_workspace_id p) of None \<Rightarrow> []
                        | Some w \<Rightarrow> if ?c t p w then [t] else [])) =
          (if ?R t then [t] else [])"
    using ns by (auto simp: can_read_task_def split: option.splits)
  have "[t. t \<leftarrow> filter ?F (tasks d), p \<leftarrow> projects d, p_id p = t_project_id t,
            w \<leftarrow> workspaces d, w_id w = p_workspace_id p, ?c t p w] =
        concat (map (\<lambda>t. if ?R t then [t] else []) (filter ?F (tasks d)))"
    unfolding inner outer row ..
  also have "\<dots> = filter ?R (filter ?F (tasks d))" by (rule concat_map_filter)
  also have "\<dots> = filter (\<lambda>t. ?F t \<and> ?R t) (tasks d)" by simp
  finally have q: "[t. t \<leftarrow> filter ?F (tasks d), p \<leftarrow> projects d, p_id p = t_project_id t,
            w \<leftarrow> workspaces d, w_id w = p_workspace_id p, ?c t p w] =
        filter (\<lambda>t. ?F t \<and> ?R t) (tasks d)" .
  have "read_tasks d skip limit project_id status assignee_id cu =
      offset_limit skip limit
        [t. t \<leftarrow> filter ?F (tasks d), p \<leftarrow> projects d, p_id p = t_project_id t,
            w \<leftarrow> workspaces d, w_id w = p_workspace_id p, ?c t p w]"
    unfolding read_tasks_eq if_not_P [OF ns] ..
  with q show ?thesis by (simp only: conj_assoc)
qed

lemma projects_by_user_first_100:
  "ProjectService_get_projects_by_user d uid 0 100 =
    Inr (take 100 [p. p \<leftarrow> projects d, m \<leftarrow> project_members d, p_id p = fst m, snd m = uid])"
  by (simp add: ProjectService_get_projects_by_user_def offset_limit_def)

lemma tasks_by_user_access_eq:
  assumes "ProjectService_get_projects_by_user d uid 0 100 = Inr ps"
  shows "TaskService_get_tasks_by_user_access d uid status skip limit =
     (if ps = [] then Inr []
      else offset_limit skip limit
             (filter (\<lambda>t. t_project_id t \<in> p_id ` set ps \<and>
                           (status \<noteq> None \<longrightarrow> Some (t_status t) = status)) (tasks d)))"
  using assms
  by (cases status) (simp_all add: TaskService_get_tasks_by_user_access_def Let_def)


lemma projects_by_user_rows:
  assumes "ProjectService_get_projects_by_user d uid 0 100 = Inr ps" "length ps < 100"
  shows "set ps = {p \<in> set (projects d). (p_id p, uid) \<in> set (project_members d)}"
proof -
  let ?J = "[p. p \<leftarrow> projects d, m \<leftarrow> project_members d, p_id p = fst m, snd m = uid]"
  from assms(1) have "offset_limit 0 100 ?J = Inr ps"
    by (simp add: ProjectService_get_projects_by_user_def)
  from offset_limit_all [OF this] assms(2) have "ps = ?J" by simp
  moreover have "set ?J = {p \<in> set (projects d). (p_id p, uid) \<in> set (project_members d)}"
    by force
  ultimately show ?thesis by simp
qed

lemma tasks_by_user_access_exact:
  assumes "ProjectService_get_projects_by_user d uid 0 100 = Inr ps" "length ps < 100"
  shows "TaskService_get_tasks_by_user_access d uid status skip limit =
     (if \<not> (\<exists>p \<in> set (projects d). (p_id p, uid) \<in> set (project_members d)) then Inr []
      else offset_limit skip limit
             (filter (\<lambda>t. (\<exists>p \<in> set (projects d). p_id p = t_project_id t) \<and>
                           (t_project_id t, uid) \<in> set (project_members d) \<and>
                           (status \<noteq> None \<longrightarrow> Some (t_status t) = status)) (tasks d)))"
proof -
  note rows = projects_by_user_rows [OF assms]
  have e: "ps = [] \<longleftrightarrow> \<not> (\<exists>p \<in> set (projects d). (p_id p, uid) \<in> set (project_members d))"
  proof -
    have "ps = [] \<longleftrightarrow> set ps = {}" by simp
    also have "\<dots> \<longleftrightarrow> \<not> (\<exists>p \<in> set (projects d). (p_id p, uid) \<in> set (project_members d))"
      unfolding rows by blast
    finally show ?thesis .
  qed
  have m: "\<And>t. t_project_id t \<in> p_id ` set ps \<longleftrightarrow>
             (\<exists>p \<in> set (projects d). p_id p = t_project_id t) \<and>
             (t_project_id t, uid) \<in> set (project_members d)"
    unfolding rows by force
  have f: "filter (\<lambda>t. t_project_id t \<in> p_id ` set ps \<and>
                       (status \<noteq> None \<longrightarrow> Some (t_status t) = status)) (tasks d) =
           filter (\<lambda>t. (\<exists>p \<in> set (projects d). p_id p = t_project_id t) \<and>
                       (t_project_id t, uid) \<in> set (project_members d) \<and>
                       (status \<noteq> None \<longrightarrow> Some (t_status t) = status)) (tasks d)"
    by (rule filter_cong [OF refl]) (simp only: m conj_assoc)
  show ?thesis
    unfolding tasks_by_user_access_eq [OF assms(1)] f
    using e by simp
qed

text \<open>
  C6 as stated fails for \<^verbatim>\<open>TaskService.get_tasks_by_user_access\<close>: Bob is the
  assignee of task 1 and may read it, and the service lists no task for him.
\<close>

theorem task_access_only_by_project_membership_counterexample:
  "get_task db0 1 = Some task1 \<and> t_assignee_id task1 = Some (u_id bob) \<and>
   read_task db0 1 bob = Inr task1 \<and>
   TaskService_get_tasks_by_user_access db0 (u_id bob) None 0 100 = Inr []"
  by (simp add: TaskService_get_tasks_by_user_access_def
      ProjectService_get_projects_by_user_def read_task_def can_read_task_def offset_limit_def
      example_defs query_defs)

text \<open>
  C6, as amended. For a user who is not a superuser, every task the route
  \<^verbatim>\<open>read_tasks\<close> returns is a task of the table that meets the requested filters,
  whose project and workspace exist and for which the check of \<^verbatim>\<open>read_task\<close>
  holds. Where project ids and workspace ids are unique, as primary keys are, the
  result is exactly the requested window of the tasks of the table that meet the
  filters, whose project and workspace exist, and for which the user is the workspace
  owner, a workspace member, a project member, the assignee or the creator. Without
  that assumption, without filters and from offset 0, a result that does not reach
  its limit contains every such task. \<^verbatim>\<open>TaskService.get_tasks_by_user_access\<close>
  returns only tasks that meet the status filter and lie in a project in which the
  user has a membership row; when the user's projects are fewer than 100, it returns
  the empty list if there is no such project and otherwise exactly the requested
  window of those tasks.
\<close>

theorem task_lists:
  "(\<not> u_is_superuser cu \<and>
    read_tasks d skip limit project_id status assignee_id cu = Inr ts \<and> t \<in> set ts \<longrightarrow>
      t \<in> set (tasks d) \<and>
      (truthy project_id \<longrightarrow> Some (t_project_id t) = project_id) \<and>
      (status \<noteq> None \<longrightarrow> Some (t_status t) = status) \<and>
      (truthy assignee_id \<longrightarrow> t_assignee_id t = assignee_id) \<and>
      (\<exists>p \<in> set (projects d). \<exists>w \<in> set (workspaces d).
         p_id p = t_project_id t \<and> w_id w = p_workspace_id p \<and> can_read_task d cu t p w)) \<and>
   (\<not> u_is_superuser cu \<and> distinct (map p_id (projects d)) \<and>
    distinct (map w_id (workspaces d)) \<longrightarrow>
      read_tasks d skip limit project_id status assignee_id cu =
        offset_limit skip limit
          (filter (\<lambda>t. (truthy project_id \<longrightarrow> Some (t_project_id t) = project_id) \<and>
                        (status \<noteq> None \<longrightarrow> Some (t_status t) = status) \<and>
                        (truthy assignee_id \<longrightarrow> t_assignee_id t = assignee_id) \<and>
                        (\<exists>p w. get_project d (t_project_id t) = Some p \<and>
                               get_workspace d (p_workspace_id p) = Some w \<and>
                               (w_owner_id w = u_id cu \<or>
                                user_in cu (workspace_members_rel d (w_id w)) \<or>
                                user_in cu (project_members_rel d (p_id p)) \<or>
                                t_assignee_id t = Some (u_id cu) \<or>
                                t_created_by_id t = u_id cu)))
             (tasks d))) \<and>
   (\<not> u_is_superuser cu \<and> read_tasks d 0 limit None None None cu = Inr ts \<and>
    length ts < nat limit \<and> t \<in> set (tasks d) \<and> p \<in> set (projects d) \<and>
    p_id p = t_project_id t \<and> w \<in> set (workspaces d) \<and> w_id w = p_workspace_id p \<and>
    (w_owner_id w = u_id cu \<or> user_in cu (workspace_members_rel d (w_id w)) \<or>
     user_in cu (project_members_rel d (p_id p)) \<or> t_assignee_id t = Some (u_id cu) \<or>
     t_created_by_id t = u_id cu) \<longrightarrow>
      t \<in> set ts) \<and>
   (TaskService_get_tasks_by_user_access d uid status skip limit = Inr ts \<and> t \<in> set ts \<longrightarrow>
      t \<in> set (tasks d) \<and> (t_project_id t, uid) \<in> set (project_members d) \<and>
      (status \<noteq> None \<longrightarrow> Some (t_status t) = status)) \<and>
   (ProjectService_get_projects_by_user d uid 0 100 = Inr ps \<and> length ps < 100 \<longrightarrow>
      TaskService_get_tasks_by_user_access d uid status skip limit =
        (if \<not> (\<exists>p \<in> set (projects d). (p_id p, uid) \<in> set (project_members d)) then Inr []
         else offset_limit skip limit
                (filter (\<lambda>t. (\<exists>p \<in> set (projects d). p_id p = t_project_id t) \<and>
                              (t_project_id t, uid) \<in> set (project_members d) \<and>
                              (status \<noteq> None \<longrightarrow> Some (t_status t) = status)) (tasks d))))"
proof -
  have p1: "\<not> u_is_superuser cu \<and>
    read_tasks d skip limit project_id status assignee_id cu = Inr ts \<and> t \<in> set ts \<longrightarrow>
      t \<in> set (tasks d) \<and>
      (truthy project_id \<longrightarrow> Some (t_project_id t) = project_id) \<and>
      (status \<noteq> None \<longrightarrow> Some (t_status t) = status) \<and>
      (truthy assignee_id \<longrightarrow> t_assignee_id t = assignee_id) \<and>
      (\<exists>p \<in> set (projects d). \<exists>w \<in> set (workspaces d).
         p_id p = t_project_id t \<and> w_id w = p_workspace_id p \<and> can_read_task d cu t p w)"
    using read_tasks_rows [of cu d skip limit project_id status assignee_id ts t] by blast
  have p2: "\<not> u_is_superuser cu \<and> distinct (map p_id (projects d)) \<and>
    distinct (map w_id (workspaces d)) \<longrightarrow>
      read_tasks d skip limit project_id status assignee_id cu =
        offset_limit skip limit
          (filter (\<lambda>t. (truthy project_id \<longrightarrow> Some (t_project_id t) = project_id) \<and>
                        (status \<noteq> None \<longrightarrow> Some (t_status t) = status) \<and>
                        (truthy assignee_id \<longrightarrow> t_assignee_id t = assignee_id) \<and>
                        (\<exists>p w. get_project d (t_project_id t) = Some p \<and>
                               get_workspace d (p_workspace_id p) = Some w \<and>
                               (w_owner_id w = u_id cu \<or>
                                user_in cu (workspace_members_rel d (w_id w)) \<or>
                                user_in cu (project_members_rel d (p_id p)) \<or>
                                t_assignee_id t = Some (u_id cu) \<or>
                                t_created_by_id t = u_id cu)))
             (tasks d))"
  proof
    assume a: "\<not> u_is_superuser cu \<and> distinct (map p_id (projects d)) \<and>
      distinct (map w_id (workspaces d))"
    then have ns: "\<not> u_is_superuser cu" and dp: "distinct (map p_id (projects d))"
      and dw: "distinct (map w_id (workspaces d))" by simp_all
    have c: "\<And>t p w. can_read_task d cu t p w \<longleftrightarrow>
        (w_owner_id w = u_id cu \<or> user_in cu (workspace_members_rel d (w_id w)) \<or>
         user_in cu (project_members_rel d (p_id p)) \<or> t_assignee_id t = Some (u_id cu) \<or>
         t_created_by_id t = u_id cu)"
      using ns by (simp add: can_read_task_def)
    from read_tasks_exact [OF ns dp dw, of skip limit project_id status assignee_id]
    show "read_tasks d skip limit project_id status assignee_id cu =
        offset_limit skip limit
          (filter (\<lambda>t. (truthy project_id \<longrightarrow> Some (t_project_id t) = project_id) \<and>
                        (status \<noteq> None \<longrightarrow> Some (t_status t) = status) \<and>
                        (truthy assignee_id \<longrightarrow> t_assignee_id t = assignee_id) \<and>
                        (\<exists>p w. get_project d (t_project_id t) = Some p \<and>
                               get_workspace d (p_workspace_id p) = Some w \<and>
                               (w_owner_id w = u_id cu \<or>
                                user_in cu (workspace_members_rel d (w_id w)) \<or>
                                user_in cu (project_members_rel d (p_id p)) \<or>
                                t_assignee_id t = Some (u_id cu) \<or>
                                t_created_by_id t = u_id cu)))
             (tasks d))"
      by (simp only: c)
  qed
  have p3: "\<not> u_is_superuser cu \<and> read_tasks d 0 limit None None None cu = Inr ts \<and>
    length ts < nat limit \<and> t \<in> set (tasks d) \<and> p \<in> set (projects d) \<and>
    p_id p = t_project_id t \<and> w \<in> set (workspaces d) \<and> w_id w = p_workspace_id p \<and>
    (w_owner_id w = u_id cu \<or> user_in cu (workspace_members_rel d (w_id w)) \<or>
     user_in cu (project_members_rel d (p_id p)) \<or> t_assignee_id t = Some (u_id cu) \<or>
     t_created_by_id t = u_id cu) \<longrightarrow>
      t \<in> set ts"
  proof
    assume a: "\<not> u_is_superuser cu \<and> read_tasks d 0 limit None None None cu = Inr ts \<and>
      length ts < nat limit \<and> t \<in> set (tasks d) \<and> p \<in> set (projects d) \<and>
      p_id p = t_project_id t \<and> w \<in> set (workspaces d) \<and> w_id w = p_workspace_id p \<and>
      (w_owner_id w = u_id cu \<or> user_in cu (workspace_members_rel d (w_id w)) \<or>
       user_in cu (project_members_rel d (p_id p)) \<or> t_assignee_id t = Some (u_id cu) \<or>
       t_created_by_id t = u_id cu)"
    then have "can_read_task d cu t p w" unfolding can_read_task_def by blast
    with a show "t \<in> set ts"
      using read_tasks_complete [of cu d limit ts t p w] by simp
  qed
  have p4: "TaskService_get_tasks_by_user_access d uid status skip limit = Inr ts \<and> t \<in> set ts \<longrightarrow>
      t \<in> set (tasks d) \<and> (t_project_id t, uid) \<in> set (project_members d) \<and>
      (status \<noteq> None \<longrightarrow> Some (t_status t) = status)"
    using service_tasks_rows [of d uid status skip limit ts t] by blast
  have p5: "ProjectService_get_projects_by_user d uid 0 100 = Inr ps \<and> length ps < 100 \<longrightarrow>
      TaskService_get_tasks_by_user_access d uid status skip limit =
        (if \<not> (\<exists>p \<in> set (projects d). (p_id p, uid) \<in> set (project_members d)) then Inr []
         else offset_limit skip limit
                (filter (\<lambda>t. (\<exists>p \<in> set (projects d). p_id p = t_project_id t) \<and>
                              (t_project_id t, uid) \<in> set (project_members d) \<and>
                              (status \<noteq> None \<longrightarrow> Some (t_status t) = status)) (tasks d)))"
    using tasks_by_user_access_exact [of d uid ps status skip limit] by blast
  show ?thesis
    by (rule conjI [OF p1 conjI [OF p2 conjI [OF p3 conjI [OF p4 p5]]]])
qed

theorem task_lists_witness:
  "\<not> u_is_superuser bob \<and> distinct (map p_id (projects db0)) \<and>
   distinct (map w_id (workspaces db0)) \<and>
   read_tasks db0 0 100 (Some 1) (Some TODO) None bob = Inr [task1] \<and>
   read_tasks db0 0 100 (Some 7) None None bob = Inr [] \<and>
   read_tasks db0 1 100 None None None bob = Inr [] \<and>
   can_read_task db0 bob task1 proj1 ws1 \<and>
   ProjectService_get_projects_by_user db0 1 0 100 = Inr [proj1] \<and>
   TaskService_get_tasks_by_user_access db0 1 None 0 100 = Inr [task1] \<and>
   TaskService_get_tasks_by_user_access db0 1 (Some DONE) 0 100 = Inr [] \<and>
   (t_project_id task1, 1) \<in> set (project_members db0)"
proof -
  have h: "\<not> u_is_superuser bob" "distinct (map p_id (projects db0))"
    "distinct (map w_id (workspaces db0))" "task1 \<in> set (tasks db0)"
    "proj1 \<in> set (projects db0)" "ws1 \<in> set (workspaces db0)"
    "t_assignee_id task1 = Some (u_id bob)" "p_id proj1 = t_project_id task1"
    "w_id ws1 = p_workspace_id proj1" "(t_project_id task1, 1) \<in> set (project_members db0)"
    by (simp_all add: example_defs)
  have c: "can_read_task db0 bob task1 proj1 ws1"
    using h(7) by (simp add: can_read_task_def)
  have g: "ProjectService_get_projects_by_user db0 1 0 100 = Inr [proj1]"
    by (simp add: ProjectService_get_projects_by_user_def offset_limit_def example_defs)
  have r1: "read_tasks db0 0 100 (Some 1) (Some TODO) None bob = Inr [task1]"
    using task_lists [where d = db0 and cu = bob and skip = 0 and limit = 100
        and project_id = "Some 1" and status = "Some TODO" and assignee_id = None] h(1,2,3)
    by (simp add: offset_limit_def truthy_def example_defs query_defs)
  have r2: "read_tasks db0 0 100 (Some 7) None None bob = Inr []"
    using task_lists [where d = db0 and cu = bob and skip = 0 and limit = 100
        and project_id = "Some 7" and status = None and assignee_id = None] h(1,2,3)
    by (simp add: offset_limit_def truthy_def example_defs query_defs)
  have r3: "read_tasks db0 1 100 None None None bob = Inr []"
    using task_lists [where d = db0 and cu = bob and skip = 1 and limit = 100
        and project_id = None and status = None and assignee_id = None] h(1,2,3)
    by (simp add: offset_limit_def truthy_def example_defs query_defs)
  have s1: "TaskService_get_tasks_by_user_access db0 1 None 0 100 = Inr [task1]"
    using task_lists [where d = db0 and uid = 1 and ps = "[proj1]" and status = None
        and skip = 0 and limit = 100] g
    by (simp add: offset_limit_def example_defs)
  have s2: "TaskService_get_tasks_by_user_access db0 1 (Some DONE) 0 100 = Inr []"
    using task_lists [where d = db0 and uid = 1 and ps = "[proj1]"
        and status = "Some DONE" and skip = 0 and limit = 100] g
    by (simp add: offset_limit_def example_defs)
  show ?thesis
    using h c g r1 r2 r3 s1 s2 by simp
qed

section \<open>Pagination\<close>

text \<open>
  C8 as stated fails: a superuser who asks \<^verbatim>\<open>read_workspaces\<close> for 2000 rows of a
  table of 1001 workspaces receives all 1001 of them.
\<close>

theorem unclamped_limit_counterexample:
  "read_workspaces db_many 0 2000 root = Inr many_workspaces \<and>
   length many_workspaces = 1001"
  by (simp add: read_workspaces_def offset_limit_def db_many_def root_def many_workspaces_def)

text \<open>
  C8, as amended. \<^verbatim>\<open>paginate_query_params\<close> returns a window with
  \<open>skip \<ge> 0\<close> and \<open>1 \<le> limit \<le> 1000\<close>, and no list operation calls it. Each of
  the three list routes and of the nine list functions of the services hands the
  caller's own \<open>skip\<close> and \<open>limit\<close> to \<^verbatim>\<open>offset\<close> and \<^verbatim>\<open>limit\<close> of its
  query, whoever the user is and whatever the filters; the query itself does not
  depend on them. \<^verbatim>\<open>TaskService.get_tasks_by_user_access\<close> first reads the user's
  projects with the fixed window 0, 100 and returns the empty list without a query
  when there is none.
\<close>

theorem list_operations_do_not_clamp:
  "0 \<le> fst (paginate_query_params skip limit) \<and>
   1 \<le> snd (paginate_query_params skip limit) \<and>
   snd (paginate_query_params skip limit) \<le> 1000 \<and>
   read_workspaces d skip limit cu =
     offset_limit skip limit
       (if u_is_superuser cu then workspaces d
        else filter (\<lambda>w. w_owner_id w = u_id cu \<or>
                          user_in cu (workspace_members_rel d (w_id w))) (workspaces d)) \<and>
   read_projects d skip limit workspace_id cu =
     offset_limit skip limit
       (filter (\<lambda>p. truthy workspace_id \<longrightarrow> Some (p_workspace_id p) = workspace_id)
          (if u_is_superuser cu then projects d
           else [p. p \<leftarrow> projects d, w \<leftarrow> workspaces d, w_id w = p_workspace_id p,
                    user_in cu (project_members_rel d (p_id p)) \<or> w_owner_id w = u_id cu \<or>
                    user_in cu (workspace_members_rel d (w_id w))])) \<and>
   read_tasks d skip limit project_id status assignee_id cu =
     offset_limit skip limit
       (if u_is_superuser cu
        then filter (\<lambda>t. (truthy project_id \<longrightarrow> Some (t_project_id t) = project_id) \<and>
                          (status \<noteq> None \<longrightarrow> Some (t_status t) = status) \<and>
                          (truthy assignee_id \<longrightarrow> t_assignee_id t = assignee_id)) (tasks d)
        else [t. t \<leftarrow> filter (\<lambda>t. (truthy project_id \<longrightarrow> Some (t_project_id t) = project_id) \<and>
                          (status \<noteq> None \<longrightarrow> Some (t_status t) = status) \<and>
                          (truthy assignee_id \<longrightarrow> t_assignee_id t = assignee_id)) (tasks d),
                 p \<leftarrow> projects d, p_id p = t_project_id t,
                 w \<leftarrow> workspaces d, w_id w = p_workspace_id p,
                 t_assignee_id t = Some (u_id cu) \<or> t_created_by_id t = u_id cu \<or>
                 user_in cu (project_members_rel d (p_id p)) \<or> w_owner_id w = u_id cu \<or>
                 user_in cu (workspace_members_rel d (w_id w))]) \<and>
   WorkspaceService_get_workspaces_by_user d uid skip limit =
     offset_limit skip limit
       (remdups [w. w \<leftarrow> workspaces d, m \<leftarrow> workspace_members d, w_id w = fst m,
                    w_owner_id w = uid \<or> snd m = uid]) \<and>
   WorkspaceService_get_all_workspaces d skip limit = offset_limit skip limit (workspaces d) \<and>
   ProjectService_get_projects_by_workspace d wid skip limit =
     offset_limit skip limit (filter (\<lambda>p. p_workspace_id p = wid) (projects d)) \<and>
   ProjectService_get_projects_by_user d uid skip limit =
     offset_limit skip limit
       [p. p \<leftarrow> projects d, m \<leftarrow> project_members d, p_id p = fst m, snd m = uid] \<and>
   ProjectService_get_all_projects d skip limit = offset_limit skip limit (projects d) \<and>
   TaskService_get_tasks_by_project d pid status assignee_id skip limit =
     offset_limit skip limit
       (filter (\<lambda>t. t_project_id t = pid \<and> (status \<noteq> None \<longrightarrow> Some (t_status t) = status) \<and>
                     (truthy assignee_id \<longrightarrow> t_assignee_id t = assignee_id)) (tasks d)) \<and>
   TaskService_get_tasks_by_assignee d aid status skip limit =
     offset_limit skip limit
       (filter (\<lambda>t. t_assignee_id t = Some aid \<and>
                     (status \<noteq> None \<longrightarrow> Some (t_status t) = status)) (tasks d)) \<and>
   TaskService_get_all_tasks d status skip limit =
     offset_limit skip limit
       (filter (\<lambda>t. status \<noteq> None \<longrightarrow> Some (t_status t) = status) (tasks d)) \<and>
   TaskService_get_tasks_by_user_access d uid status skip limit =
     (if take 100 [p. p \<leftarrow> projects d, m \<leftarrow> project_members d, p_id p = fst m, snd m = uid] = []
      then Inr []
      else offset_limit skip limit
             (filter (\<lambda>t. t_project_id t \<in> p_id ` set (take 100
                               [p. p \<leftarrow> projects d, m \<leftarrow> project_members d,
                                   p_id p = fst m, snd m = uid]) \<and>
                           (status \<noteq> None \<longrightarrow> Some (t_status t) = status)) (tasks d)))"
proof -
  have h1: "0 \<le> fst (paginate_query_params skip limit)"
    and h2: "1 \<le> snd (paginate_query_params skip limit)"
    and h3: "snd (paginate_query_params skip limit) \<le> 1000"
    by (simp_all add: paginate_query_params_def Let_def)
  have rw: "read_workspaces d skip limit cu =
     offset_limit skip limit
       (if u_is_superuser cu then workspaces d
        else filter (\<lambda>w. w_owner_id w = u_id cu \<or>
                          user_in cu (workspace_members_rel d (w_id w))) (workspaces d))"
    by (simp add: read_workspaces_def)
  have rp: "read_projects d skip limit workspace_id cu =
     offset_limit skip limit
       (filter (\<lambda>p. truthy workspace_id \<longrightarrow> Some (p_workspace_id p) = workspace_id)
          (if u_is_superuser cu then projects d
           else [p. p \<leftarrow> projects d, w \<leftarrow> workspaces d, w_id w = p_workspace_id p,
                    user_in cu (project_members_rel d (p_id p)) \<or> w_owner_id w = u_id cu \<or>
                    user_in cu (workspace_members_rel d (w_id w))]))"
    by (cases "truthy workspace_id"; cases "u_is_superuser cu")
       (simp_all add: read_projects_def Let_def)
  have rt: "read_tasks d skip limit project_id status assignee_id cu =
     offset_limit skip limit
       (if u_is_superuser cu
        then filter (\<lambda>t. (truthy project_id \<longrightarrow> Some (t_project_id t) = project_id) \<and>
                          (status \<noteq> None \<longrightarrow> Some (t_status t) = status) \<and>
                          (truthy assignee_id \<longrightarrow> t_assignee_id t = assignee_id)) (tasks d)
        else [t. t \<leftarrow> filter (\<lambda>t. (truthy project_id \<longrightarrow> Some (t_project_id t) = project_id) \<and>
                          (status \<noteq> None \<longrightarrow> Some (t_status t) = status) \<and>
                          (truthy assignee_id \<longrightarrow> t_assignee_id t = assignee_id)) (tasks d),
                 p \<leftarrow> projects d, p_id p = t_project_id t,
                 w \<leftarrow> workspaces d, w_id w = p_workspace_id p,
                 t_assignee_id t = Some (u_id cu) \<or> t_created_by_id t = u_id cu \<or>
                 user_in cu (project_members_rel d (p_id p)) \<or> w_owner_id w = u_id cu \<or>
                 user_in cu (workspace_members_rel d (w_id w))])"
    by (cases "truthy project_id"; cases status; cases "truthy assignee_id";
        cases "u_is_superuser cu")
       (simp_all add: read_tasks_def Let_def)
  have s1: "WorkspaceService_get_workspaces_by_user d uid skip limit =
     offset_limit skip limit
       (remdups [w. w \<leftarrow> workspaces d, m \<leftarrow> workspace_members d, w_id w = fst m,
                    w_owner_id w = uid \<or> snd m = uid])"
    by (simp add: WorkspaceService_get_workspaces_by_user_def)
  have s2: "WorkspaceService_get_all_workspaces d skip limit =
     offset_limit skip limit (workspaces d)"
    by (simp add: WorkspaceService_get_all_workspaces_def)
  have s3: "ProjectService_get_projects_by_workspace d wid skip limit =
     offset_limit skip limit (filter (\<lambda>p. p_workspace_id p = wid) (projects d))"
    by (simp add: ProjectService_get_projects_by_workspace_def)
  have s4: "ProjectService_get_projects_by_user d uid skip limit =
     offset_limit skip limit
       [p. p \<leftarrow> projects d, m \<leftarrow> project_members d, p_id p = fst m, snd m = uid]"
    by (simp add: ProjectService_get_projects_by_user_def)
  have s5: "ProjectService_get_all_projects d skip limit = offset_limit skip limit (projects d)"
    by (simp add: ProjectService_get_all_projects_def)
  have s6: "TaskService_get_tasks_by_project d pid status assignee_id skip limit =
     offset_limit skip limit
       (filter (\<lambda>t. t_project_id t = pid \<and> (status \<noteq> None \<longrightarrow> Some (t_status t) = status) \<and>
                     (truthy assignee_id \<longrightarrow> t_assignee_id t = assignee_id)) (tasks d))"
    by (cases status; cases "truthy assignee_id")
       (simp_all add: TaskService_get_tasks_by_project_def Let_def)
  have s7: "TaskService_get_tasks_by_assignee d aid status skip limit =
     offset_limit skip limit
       (filter (\<lambda>t. t_assignee_id t = Some aid \<and>
                     (status \<noteq> None \<longrightarrow> Some (t_status t) = status)) (tasks d))"
    by (cases status) (simp_all add: TaskService_get_tasks_by_assignee_def Let_def)
  have s8: "TaskService_get_all_tasks d status skip limit =
     offset_limit skip limit
       (filter (\<lambda>t. status \<noteq> None \<longrightarrow> Some (t_status t) = status) (tasks d))"
    by (cases status) (simp_all add: TaskService_get_all_tasks_def Let_def)
  have s9: "TaskService_get_tasks_by_user_access d uid status skip limit =
     (if take 100 [p. p \<leftarrow> projects d, m \<leftarrow> project_members d, p_id p = fst m, snd m = uid] = []
      then Inr []
      else offset_limit skip limit
             (filter (\<lambda>t. t_project_id t \<in> p_id ` set (take 100
                               [p. p \<leftarrow> projects d, m \<leftarrow> project_members d,
                                   p_id p = fst m, snd m = uid]) \<and>
                           (status \<noteq> None \<longrightarrow> Some (t_status t) = status)) (tasks d)))"
    by (rule tasks_by_user_access_eq [OF projects_by_user_first_100])
  show ?thesis
    by (rule conjI [OF h1 conjI [OF h2 conjI [OF h3 conjI [OF rw conjI [OF rp conjI [OF rt
          conjI [OF s1 conjI [OF s2 conjI [OF s3 conjI [OF s4 conjI [OF s5 conjI [OF s6
          conjI [OF s7 conjI [OF s8 s9]]]]]]]]]]]]]])
qed

theorem list_operations_do_not_clamp_witness:
  "read_workspaces db_many 0 2000 root = Inr many_workspaces \<and>
   WorkspaceService_get_all_workspaces db_many 0 2000 = Inr many_workspaces \<and>
   length many_workspaces = 1001 \<and> snd (paginate_query_params 0 2000) = 1000 \<and>
   read_workspaces db0 0 2000 alice = Inr [ws1, ws2] \<and>
   read_tasks db0 0 2000 None None None bob = Inr [task1]"
proof -
  have w: "workspaces db_many = many_workspaces" "u_is_superuser root"
    by (simp_all add: db_many_def root_def)
  have l: "length many_workspaces = 1001" by (simp add: many_workspaces_def)
  have o: "offset_limit 0 2000 many_workspaces = Inr many_workspaces"
    using l by (simp add: offset_limit_def)
  have p: "snd (paginate_query_params 0 2000) = 1000"
    by (simp add: paginate_query_params_def)
  have a: "read_workspaces db0 0 2000 alice = Inr [ws1, ws2]"
    using list_operations_do_not_clamp [of 0 2000 db0 alice]
    by (simp add: offset_limit_def example_defs query_defs)
  have b: "read_tasks db0 0 2000 None None None bob = Inr [task1]"
    using list_operations_do_not_clamp [of 0 2000 db0 bob _ None None None]
    by (simp add: offset_limit_def truthy_def example_defs query_defs)
  show ?thesis
    using list_operations_do_not_clamp [of 0 2000 db_many root] w l o p a b
    by simp
qed

end
